theory Spec2Isabelle
  imports Main "HOL-Library.Char_ord"
begin

section \<open>Domain types (domain/types.ts)\<close>

text \<open>
  \<^verbatim>\<open>type OverrideType = "user" | "group" | "region"\<close>: a union of three string
  literals, one constructor each.
\<close>

datatype OverrideType = User | Group | Region

text \<open>
  The \<^verbatim>\<open>reason\<close> field of an evaluation result is a union of four string literals:
  \<^verbatim>\<open>"user-override" | "group-override" | "region-override" | "global-default"\<close>.
\<close>

datatype reason = UserOverride | GroupOverride | RegionOverride | GlobalDefault

text \<open>\<^verbatim>\<open>interface EvaluationResult { key; enabled; reason }\<close>\<close>

record EvaluationResult =
  key :: string
  enabled :: bool
  reason :: reason

text \<open>
  \<^verbatim>\<open>interface FeatureOverrides\<close>: a \<^verbatim>\<open>Map<string, boolean>\<close> is a partial function
  from strings to booleans; the field \<^verbatim>\<open>regions?\<close> may be missing.
\<close>

record FeatureOverrides =
  users :: "string \<rightharpoonup> bool"
  groups :: "string \<rightharpoonup> bool"
  regions :: "(string \<rightharpoonup> bool) option"

text \<open>
  \<^verbatim>\<open>interface FeatureFlag\<close>. The description is declared a string, but
  \<^verbatim>\<open>validateDescription\<close> lets \<^verbatim>\<open>undefined\<close> through, so it is optional here.
  The timestamps \<^verbatim>\<open>createdAt\<close> and \<^verbatim>\<open>updatedAt\<close> are written by the database
  driver and read by no function below; they are left out.
\<close>

record FeatureFlag =
  key :: string
  description :: "string option"
  enabled :: bool
  overrides :: FeatureOverrides

text \<open>\<^verbatim>\<open>interface EvaluationContext { userId?; groupId?; regionId? }\<close>\<close>

record EvaluationContext =
  userId :: "string option"
  groupId :: "string option"
  regionId :: "string option"


section \<open>The evaluation engine (domain/feature-evaluator.ts)\<close>

text \<open>
  The three guards of \<^verbatim>\<open>evaluate\<close> have the shape
  \<^verbatim>\<open>context.userId && flag.overrides.users.has(context.userId)\<close>.
  The left operand is tested for truthiness: \<^verbatim>\<open>undefined\<close> and the empty string
  are both falsy, every other string is truthy.
\<close>

definition truthy_id :: "string option \<Rightarrow> bool" where
  "truthy_id v = (case v of None \<Rightarrow> False | Some s \<Rightarrow> s \<noteq> [])"

text \<open>\<^verbatim>\<open>Map.prototype.has\<close> and \<^verbatim>\<open>Map.prototype.get\<close> followed by \<^verbatim>\<open>!\<close>.\<close>

definition map_has :: "(string \<rightharpoonup> bool) \<Rightarrow> string \<Rightarrow> bool" where
  "map_has m k = (m k \<noteq> None)"

definition map_get :: "(string \<rightharpoonup> bool) \<Rightarrow> string \<Rightarrow> bool" where
  "map_get m k = (case m k of Some b \<Rightarrow> b | None \<Rightarrow> False)"

text \<open>
  The argument of \<^verbatim>\<open>has\<close> and \<^verbatim>\<open>get\<close> once the guard has found the identifier
  truthy.
\<close>

definition id_of :: "string option \<Rightarrow> string" where
  "id_of v = (case v of Some s \<Rightarrow> s | None \<Rightarrow> [])"

text \<open>
  \<^verbatim>\<open>flag.overrides.regions?.has(id)\<close>: optional chaining yields \<^verbatim>\<open>undefined\<close>
  (falsy) when the mapping is missing.
\<close>

definition opt_has :: "(string \<rightharpoonup> bool) option \<Rightarrow> string \<Rightarrow> bool" where
  "opt_has om k = (case om of None \<Rightarrow> False | Some m \<Rightarrow> map_has m k)"

definition opt_get :: "(string \<rightharpoonup> bool) option \<Rightarrow> string \<Rightarrow> bool" where
  "opt_get om k = (case om of None \<Rightarrow> False | Some m \<Rightarrow> map_get m k)"

text \<open>\<^verbatim>\<open>FeatureEvaluator.evaluate\<close>: four branches, the first guard that holds returns.\<close>

definition evaluate :: "FeatureFlag \<Rightarrow> EvaluationContext \<Rightarrow> EvaluationResult" where
  "evaluate flag context =
    (if truthy_id (userId context) \<and> map_has (users (overrides flag)) (id_of (userId context))
     then \<lparr>EvaluationResult.key = key flag,
           EvaluationResult.enabled = map_get (users (overrides flag)) (id_of (userId context)),
           reason = UserOverride\<rparr>
     else if truthy_id (groupId context) \<and> map_has (groups (overrides flag)) (id_of (groupId context))
     then \<lparr>EvaluationResult.key = key flag,
           EvaluationResult.enabled = map_get (groups (overrides flag)) (id_of (groupId context)),
           reason = GroupOverride\<rparr>
     else if truthy_id (regionId context) \<and> opt_has (regions (overrides flag)) (id_of (regionId context))
     then \<lparr>EvaluationResult.key = key flag,
           EvaluationResult.enabled = opt_get (regions (overrides flag)) (id_of (regionId context)),
           reason = RegionOverride\<rparr>
     else \<lparr>EvaluationResult.key = key flag,
           EvaluationResult.enabled = enabled flag,
           reason = GlobalDefault\<rparr>)"

text \<open>\<^verbatim>\<open>FeatureEvaluator.evaluateMultiple\<close>: \<^verbatim>\<open>flags.map((flag) => this.evaluate(flag, context))\<close>.\<close>

definition evaluateMultiple :: "FeatureFlag list \<Rightarrow> EvaluationContext \<Rightarrow> EvaluationResult list" where
  "evaluateMultiple flags context = map (\<lambda>flag. evaluate flag context) flags"


section \<open>Run-time values reaching the validators\<close>

text \<open>
  The validators are typed on strings and booleans but test \<^verbatim>\<open>typeof\<close> themselves,
  and the controller hands them request data unchecked (\<^verbatim>\<open>req.body as ...\<close>,
  \<^verbatim>\<open>type as any\<close>). Their arguments are therefore JSON-shaped JavaScript values.
  Numbers are integers here: the validators only test a number for its type and its
  truthiness, and reject it either way.
\<close>

datatype jsval =
    JUndefined
  | JNull
  | JBool bool
  | JNum int
  | JStr string
  | JArr "jsval list"
  | JObj "(string \<times> jsval) list"

text \<open>The operator \<^verbatim>\<open>typeof\<close>.\<close>

fun typeof :: "jsval \<Rightarrow> string" where
  "typeof JUndefined = ''undefined''"
| "typeof JNull = ''object''"
| "typeof (JBool b) = ''boolean''"
| "typeof (JNum n) = ''number''"
| "typeof (JStr s) = ''string''"
| "typeof (JArr xs) = ''object''"
| "typeof (JObj fs) = ''object''"

text \<open>Truthiness, as tested by \<^verbatim>\<open>!v\<close>, \<^verbatim>\<open>&&\<close> and \<^verbatim>\<open>if (v)\<close>.\<close>

fun truthy :: "jsval \<Rightarrow> bool" where
  "truthy JUndefined = False"
| "truthy JNull = False"
| "truthy (JBool b) = b"
| "truthy (JNum n) = (n \<noteq> 0)"
| "truthy (JStr s) = (s \<noteq> [])"
| "truthy (JArr xs) = True"
| "truthy (JObj fs) = True"

text \<open>
  Property read \<^verbatim>\<open>v.name\<close> on a value already known to be truthy: a missing field
  reads as \<^verbatim>\<open>undefined\<close>, and so does a named field of an array, a string, a number
  or a boolean.
\<close>

fun get_prop :: "jsval \<Rightarrow> string \<Rightarrow> jsval" where
  "get_prop (JObj fs) name = (case map_of fs name of Some v \<Rightarrow> v | None \<Rightarrow> JUndefined)"
| "get_prop v name = JUndefined"


section \<open>Errors (domain/errors.ts)\<close>

text \<open>
  Each \<^verbatim>\<open>throw new ValidationError(...)\<close> of domain/validators.ts is one constructor,
  named after its message.
\<close>

datatype validation_message =
    KeyRequired          \<comment> \<open>Feature key is required and must be a string\<close>
  | KeyEmpty             \<comment> \<open>Feature key cannot be empty\<close>
  | KeyBadCharacters     \<comment> \<open>Feature key must contain only alphanumeric characters, ...\<close>
  | KeyTooLong           \<comment> \<open>Feature key must not exceed 100 characters\<close>
  | DescriptionNotString \<comment> \<open>Description must be a string\<close>
  | DescriptionTooLong   \<comment> \<open>Description must not exceed 500 characters\<close>
  | EnabledNotBoolean    \<comment> \<open>Enabled state must be a boolean value\<close>
  | InvalidOverrideType jsval \<comment> \<open>Invalid override type '...'. Must be one of: ...\<close>
  | IdRequired           \<comment> \<open>Override ID is required and must be a string\<close>
  | IdEmpty              \<comment> \<open>Override ID cannot be empty\<close>
  | IdTooLong            \<comment> \<open>Override ID must not exceed 100 characters\<close>
  | ContextNotObject     \<comment> \<open>Evaluation context must be an object\<close>
  | ContextNoIdentifier  \<comment> \<open>Evaluation context must include at least one of: ...\<close>

text \<open>
  The error classes. \<^verbatim>\<open>FeatureNotFoundError\<close> and \<^verbatim>\<open>DuplicateFeatureError\<close> are built
  from the key; \<^verbatim>\<open>DatabaseError\<close> from a fixed message. \<^verbatim>\<open>TypeError\<close> is not one of
  the classes of errors.ts: it is JavaScript's own, thrown when a value cannot be
  converted to a string.
\<close>

datatype error =
    ValidationError validation_message
  | FeatureNotFoundError string
  | DuplicateFeatureError string
  | DatabaseError string
  | TypeError


section \<open>Validators (domain/validators.ts)\<close>

text \<open>
  A string is a list of 8-bit characters, read as code units below 256; JavaScript
  strings with other code units are not represented.

  \<^verbatim>\<open>String.prototype.trim\<close> strips white space and line terminators at both ends.
  Of those, the characters below are the ones a \<^typ>\<open>char\<close> can hold: tab, line feed,
  vertical tab, form feed, carriage return, space and no-break space.
\<close>

definition is_js_whitespace :: "char \<Rightarrow> bool" where
  "is_js_whitespace c =
     (c = CHR 0x09 \<or> c = CHR 0x0A \<or> c = CHR 0x0B \<or> c = CHR 0x0C \<or> c = CHR 0x0D
      \<or> c = CHR 0x20 \<or> c = CHR 0xA0)"

definition trim :: "string \<Rightarrow> string" where
  "trim s = rev (dropWhile is_js_whitespace (rev (dropWhile is_js_whitespace s)))"

text \<open>
  The regular expression \<^verbatim>\<open>/^[a-zA-Z0-9_-]+$/\<close>: without the \<^verbatim>\<open>m\<close> flag the anchors
  are the two ends of the input, so \<^verbatim>\<open>test\<close> holds exactly for a non-empty string
  all of whose characters are in the class.
\<close>

definition keyPattern_class :: "char \<Rightarrow> bool" where
  "keyPattern_class c =
     ((CHR ''a'' \<le> c \<and> c \<le> CHR ''z'') \<or> (CHR ''A'' \<le> c \<and> c \<le> CHR ''Z'')
      \<or> (CHR ''0'' \<le> c \<and> c \<le> CHR ''9'') \<or> c = CHR ''_'' \<or> c = CHR ''-'')"

definition keyPattern_test :: "string \<Rightarrow> bool" where
  "keyPattern_test s = (s \<noteq> [] \<and> list_all keyPattern_class s)"

text \<open>The string held by a value that has passed a \<^verbatim>\<open>typeof v !== "string"\<close> test.\<close>

fun str_of :: "jsval \<Rightarrow> string" where
  "str_of (JStr s) = s"
| "str_of v = []"

text \<open>\<^verbatim>\<open>validateFeatureKey\<close>\<close>

definition validateFeatureKey :: "jsval \<Rightarrow> error + unit" where
  "validateFeatureKey key' =
    (if \<not> truthy key' \<or> typeof key' \<noteq> ''string'' then Inl (ValidationError KeyRequired)
     else if length (trim (str_of key')) = 0 then Inl (ValidationError KeyEmpty)
     else if \<not> keyPattern_test (str_of key') then Inl (ValidationError KeyBadCharacters)
     else if length (str_of key') > 100 then Inl (ValidationError KeyTooLong)
     else Inr ())"

text \<open>\<^verbatim>\<open>validateDescription\<close>\<close>

definition validateDescription :: "jsval \<Rightarrow> error + unit" where
  "validateDescription description' =
    (if description' \<noteq> JUndefined \<and> typeof description' \<noteq> ''string''
     then Inl (ValidationError DescriptionNotString)
     else if truthy description' \<and> length (str_of description') > 500
     then Inl (ValidationError DescriptionTooLong)
     else Inr ())"

text \<open>\<^verbatim>\<open>validateEnabledState\<close>\<close>

definition validateEnabledState :: "jsval \<Rightarrow> error + unit" where
  "validateEnabledState enabled' =
    (if typeof enabled' \<noteq> ''boolean'' then Inl (ValidationError EnabledNotBoolean)
     else Inr ())"

text \<open>
  The conversion to a string that a template literal applies to \<^verbatim>\<open>${type}\<close> throws
  \<^verbatim>\<open>TypeError\<close> on some values. An object parsed from JSON has no callable
  property of its own, so one with an own property \<^verbatim>\<open>toString\<close> hides
  \<^verbatim>\<open>Object.prototype.toString\<close> behind a value that cannot be called, and
  \<^verbatim>\<open>valueOf\<close> gives no primitive either. An array is joined from the strings of
  its elements and throws when one of them does. Every other value converts.
\<close>

fun toString_throws :: "jsval \<Rightarrow> bool" where
  "toString_throws (JObj fs) = (map_of fs ''toString'' \<noteq> None)"
| "toString_throws (JArr xs) = list_ex toString_throws xs"
| "toString_throws v = False"

text \<open>
  \<^verbatim>\<open>validateOverrideType\<close>: \<^verbatim>\<open>validTypes.includes(type)\<close> compares with the three
  literals by strict equality. The argument of \<^verbatim>\<open>new ValidationError(...)\<close> is the
  template literal \<^verbatim>\<open>`Invalid override type '${type}'. Must be one of: ...`\<close>, which
  is evaluated before the error is constructed and thrown.
\<close>

definition validTypes :: "jsval list" where
  "validTypes = [JStr ''user'', JStr ''group'', JStr ''region'']"

definition validateOverrideType :: "jsval \<Rightarrow> error + unit" where
  "validateOverrideType type =
    (if type \<notin> set validTypes
     then (if toString_throws type then Inl TypeError
           else Inl (ValidationError (InvalidOverrideType type)))
     else Inr ())"

text \<open>\<^verbatim>\<open>validateOverrideId\<close>\<close>

definition validateOverrideId :: "jsval \<Rightarrow> error + unit" where
  "validateOverrideId ident =
    (if \<not> truthy ident \<or> typeof ident \<noteq> ''string'' then Inl (ValidationError IdRequired)
     else if length (trim (str_of ident)) = 0 then Inl (ValidationError IdEmpty)
     else if length (str_of ident) > 100 then Inl (ValidationError IdTooLong)
     else Inr ())"

text \<open>
  The block \<^verbatim>\<open>if (context.f !== undefined) { validateOverrideId(context.f); }\<close> of
  \<^verbatim>\<open>validateEvaluationContext\<close>.
\<close>

definition validate_if_defined :: "jsval \<Rightarrow> error + unit" where
  "validate_if_defined v = (if v \<noteq> JUndefined then validateOverrideId v else Inr ())"

text \<open>\<^verbatim>\<open>validateEvaluationContext\<close>\<close>

definition validateEvaluationContext :: "jsval \<Rightarrow> error + unit" where
  "validateEvaluationContext context =
    (if \<not> truthy context \<or> typeof context \<noteq> ''object''
     then Inl (ValidationError ContextNotObject)
     else if \<not> truthy (get_prop context ''userId'') \<and> \<not> truthy (get_prop context ''groupId'')
             \<and> \<not> truthy (get_prop context ''regionId'')
     then Inl (ValidationError ContextNoIdentifier)
     else (case validate_if_defined (get_prop context ''userId'') of
             Inl e \<Rightarrow> Inl e
           | Inr u \<Rightarrow>
          (case validate_if_defined (get_prop context ''groupId'') of
             Inl e \<Rightarrow> Inl e
           | Inr u \<Rightarrow> validate_if_defined (get_prop context ''regionId''))))"

text \<open>
  The casts that follow a successful validation: \<^verbatim>\<open>type\<close> is one of the three
  literals, and each field of \<^verbatim>\<open>context\<close> is a string or missing.
\<close>

fun overrideType_of :: "jsval \<Rightarrow> OverrideType" where
  "overrideType_of v =
     (if v = JStr ''user'' then User else if v = JStr ''group'' then Group else Region)"

fun field_of :: "jsval \<Rightarrow> string option" where
  "field_of (JStr s) = Some s"
| "field_of v = None"

definition context_of :: "jsval \<Rightarrow> EvaluationContext" where
  "context_of context =
     \<lparr>userId = field_of (get_prop context ''userId''),
      groupId = field_of (get_prop context ''groupId''),
      regionId = field_of (get_prop context ''regionId'')\<rparr>"


section \<open>The collection (database/schemas/feature-flag.schema.ts)\<close>

text \<open>
  \<^verbatim>\<open>FeatureFlagModel\<close> is a collection of documents with a unique index on
  \<^verbatim>\<open>key\<close>: a partial function from keys to documents. A document carries the
  fields of a \<^typ>\<open>FeatureFlag\<close>. The calls the repository makes on the model are given
  their documented meaning on an available database; a lost connection, which the
  repository would wrap as \<^verbatim>\<open>DatabaseError\<close>, is outside this model.
\<close>

type_synonym collection = "string \<rightharpoonup> FeatureFlag"

text \<open>What \<^verbatim>\<open>doc.save()\<close> can throw: the duplicate-key error with code 11000, or another.\<close>

datatype driver_error = E11000 | OtherDriverError

text \<open>
  \<^verbatim>\<open>doc.save()\<close> on a document built by \<^verbatim>\<open>new FeatureFlagModel(...)\<close>. The schema
  declares \<^verbatim>\<open>key\<close> with \<^verbatim>\<open>trim: true\<close>, \<^verbatim>\<open>required: true\<close> and
  \<^verbatim>\<open>maxlength: 100\<close>, and \<^verbatim>\<open>description\<close> with \<^verbatim>\<open>required: true\<close> and
  \<^verbatim>\<open>maxlength: 500\<close>: the key is trimmed when the document is built, a required
  string fails when it is missing or empty, and the document is validated before
  anything is written. Then the unique index refuses a key that is already present.
\<close>

definition schema_valid :: "FeatureFlag \<Rightarrow> bool" where
  "schema_valid doc =
    (key doc \<noteq> [] \<and> length (key doc) \<le> 100
     \<and> (case description doc of
          None \<Rightarrow> False
        | Some d \<Rightarrow> d \<noteq> [] \<and> length d \<le> 500))"

definition save :: "collection \<Rightarrow> FeatureFlag \<Rightarrow> driver_error + (FeatureFlag \<times> collection)" where
  "save c doc0 =
    (let doc = doc0\<lparr>key := trim (key doc0)\<rparr>
     in if \<not> schema_valid doc then Inl OtherDriverError
        else if c (key doc) \<noteq> None then Inl E11000
        else Inr (doc, c(key doc \<mapsto> doc)))"

text \<open>
  \<^verbatim>\<open>FeatureFlagModel.findOne({ key })\<close>: the document stored under the key of the
  filter. The schema's \<^verbatim>\<open>trim\<close> changes nothing in a key without white space at its
  ends, and what is proved below from a lookup or a filter is about such keys.
\<close>

definition findOne :: "collection \<Rightarrow> string \<Rightarrow> FeatureFlag option" where
  "findOne coll key' = coll key'"

text \<open>
  A change of one document: the global flag set, one entry of a mapping set, or one
  entry of a mapping removed. Setting an entry creates a missing \<^verbatim>\<open>regions\<close>
  mapping; removing one leaves a missing mapping missing.
\<close>

datatype update =
    SetEnabled bool
  | SetOverride OverrideType string bool
  | UnsetOverride OverrideType string

fun set_entry :: "OverrideType \<Rightarrow> string \<Rightarrow> bool \<Rightarrow> FeatureOverrides \<Rightarrow> FeatureOverrides" where
  "set_entry User i b ov = ov\<lparr>users := (users ov)(i \<mapsto> b)\<rparr>"
| "set_entry Group i b ov = ov\<lparr>groups := (groups ov)(i \<mapsto> b)\<rparr>"
| "set_entry Region i b ov =
     ov\<lparr>regions := Some ((case regions ov of None \<Rightarrow> Map.empty | Some m \<Rightarrow> m)(i \<mapsto> b))\<rparr>"

fun unset_entry :: "OverrideType \<Rightarrow> string \<Rightarrow> FeatureOverrides \<Rightarrow> FeatureOverrides" where
  "unset_entry User i ov = ov\<lparr>users := (users ov)(i := None)\<rparr>"
| "unset_entry Group i ov = ov\<lparr>groups := (groups ov)(i := None)\<rparr>"
| "unset_entry Region i ov =
     ov\<lparr>regions := (case regions ov of None \<Rightarrow> None | Some m \<Rightarrow> Some (m(i := None)))\<rparr>"

fun apply_update :: "update \<Rightarrow> FeatureFlag \<Rightarrow> FeatureFlag" where
  "apply_update (SetEnabled b) doc = doc\<lparr>FeatureFlag.enabled := b\<rparr>"
| "apply_update (SetOverride t i b) doc = doc\<lparr>overrides := set_entry t i b (overrides doc)\<rparr>"
| "apply_update (UnsetOverride t i) doc = doc\<lparr>overrides := unset_entry t i (overrides doc)\<rparr>"

text \<open>
  The field path the repository builds for an override,
  \<^verbatim>\<open>`overrides.${type}s.${id}`\<close>: the identifier goes into the path as it is.
\<close>

fun type_name :: "OverrideType \<Rightarrow> string" where
  "type_name User = ''user''"
| "type_name Group = ''group''"
| "type_name Region = ''region''"

definition overrideField :: "OverrideType \<Rightarrow> string \<Rightarrow> string" where
  "overrideField type' id' = ''overrides.'' @ type_name type' @ ''s.'' @ id'"

text \<open>
  The three update documents the repository sends: \<^verbatim>\<open>{ $set: { enabled } }\<close>,
  \<^verbatim>\<open>{ $set: { [overrideField]: enabled } }\<close> and \<^verbatim>\<open>{ $unset: { [overrideField]: "" } }\<close>.
\<close>

datatype update_document =
    Set_enabled bool
  | Set_field string bool
  | Unset_field string

text \<open>
  What the database driver makes of a field path in an update is not decided by
  the repository, and it is not fixed here: a driver is a parameter. Given the path
  and the value to set (\<^term>\<open>None\<close> for \<^verbatim>\<open>$unset\<close>) it yields the change it applies
  to the matched document, or \<^term>\<open>None\<close> when it refuses the update and throws.
\<close>

type_synonym driver = "string \<Rightarrow> bool option \<Rightarrow> (FeatureFlag \<Rightarrow> FeatureFlag) option"

definition change_of :: "driver \<Rightarrow> update_document \<Rightarrow> (FeatureFlag \<Rightarrow> FeatureFlag) option" where
  "change_of drv u =
    (case u of
       Set_enabled b \<Rightarrow> Some (apply_update (SetEnabled b))
     | Set_field path b \<Rightarrow> drv path (Some b)
     | Unset_field path \<Rightarrow> drv path None)"

text \<open>
  \<^verbatim>\<open>FeatureFlagModel.updateOne({ key }, update)\<close>: it throws when the driver refuses
  the update document, and otherwise gives the result's \<^verbatim>\<open>matchedCount\<close> and the
  collection afterwards.
\<close>

definition updateOne ::
    "driver \<Rightarrow> collection \<Rightarrow> string \<Rightarrow> update_document \<Rightarrow> driver_error + nat \<times> collection" where
  "updateOne drv c key' u =
    (case change_of drv u of
       None \<Rightarrow> Inl OtherDriverError
     | Some g \<Rightarrow>
         (case c key' of
            None \<Rightarrow> Inr (0, c)
          | Some doc \<Rightarrow> Inr (1, c(key' \<mapsto> g doc))))"

text \<open>\<^verbatim>\<open>FeatureFlagModel.deleteOne({ key })\<close>: \<^verbatim>\<open>deletedCount\<close> and the collection afterwards.\<close>

definition deleteOne :: "collection \<Rightarrow> string \<Rightarrow> nat \<times> collection" where
  "deleteOne coll key' =
    (case coll key' of
       None \<Rightarrow> (0, coll)
     | Some doc \<Rightarrow> (1, coll(key' := None)))"


section \<open>The repository (repositories/feature.repository.ts)\<close>

text \<open>
  The state the service acts on: the collection, and a trace that records, in
  order, every call that enters the repository and every call of the evaluation
  engine made by the service.
\<close>

datatype event =
    Repo_create string
  | Repo_findByKey string
  | Repo_updateGlobalState string bool
  | Repo_addOrUpdateOverride string OverrideType string bool
  | Repo_removeOverride string OverrideType string
  | Repo_delete string
  | Engine_evaluate string

record world =
  coll :: collection
  trace :: "event list"

definition enter :: "event \<Rightarrow> world \<Rightarrow> world" where
  "enter ev w = w\<lparr>trace := trace w @ [ev]\<rparr>"

text \<open>\<^verbatim>\<open>FeatureRepository.toDomain\<close>: a document without \<^verbatim>\<open>regions\<close> gets an empty mapping.\<close>

definition toDomain :: "FeatureFlag \<Rightarrow> FeatureFlag" where
  "toDomain doc =
    \<lparr>key = key doc,
     description = description doc,
     enabled = FeatureFlag.enabled doc,
     overrides =
       \<lparr>users = users (overrides doc),
        groups = groups (overrides doc),
        regions = (case regions (overrides doc) of
                     Some m \<Rightarrow> Some m
                   | None \<Rightarrow> Some Map.empty)\<rparr>\<rparr>"

text \<open>\<^verbatim>\<open>FeatureRepository.create\<close>\<close>

definition FeatureRepository_create :: "world \<Rightarrow> FeatureFlag \<Rightarrow> (error + FeatureFlag) \<times> world" where
  "FeatureRepository_create w0 feature =
    (let w = enter (Repo_create (key feature)) w0;
         doc = \<lparr>key = key feature,
                description = description feature,
                enabled = FeatureFlag.enabled feature,
                overrides =
                  \<lparr>users = users (overrides feature),
                   groups = groups (overrides feature),
                   regions = (case regions (overrides feature) of
                                Some m \<Rightarrow> Some m
                              | None \<Rightarrow> Some Map.empty)\<rparr>\<rparr>
     in case save (coll w) doc of
          Inr (saved, c) \<Rightarrow> (Inr (toDomain saved), w\<lparr>coll := c\<rparr>)
        | Inl E11000 \<Rightarrow> (Inl (DuplicateFeatureError (key feature)), w)
        | Inl OtherDriverError \<Rightarrow> (Inl (DatabaseError ''Failed to create feature flag''), w))"

text \<open>\<^verbatim>\<open>FeatureRepository.findByKey\<close>\<close>

definition FeatureRepository_findByKey :: "world \<Rightarrow> string \<Rightarrow> (error + FeatureFlag option) \<times> world" where
  "FeatureRepository_findByKey w0 key' =
    (let w = enter (Repo_findByKey key') w0
     in case findOne (coll w) key' of
          Some doc \<Rightarrow> (Inr (Some (toDomain doc)), w)
        | None \<Rightarrow> (Inr None, w))"

text \<open>
  \<^verbatim>\<open>FeatureRepository.findAll\<close> and \<^verbatim>\<open>FeatureService.getAllFeatures\<close> list the
  collection sorted by key; they take no input, change nothing and are not needed
  below.
\<close>

text \<open>
  \<^verbatim>\<open>FeatureRepository.updateGlobalState\<close>. In this and the next two methods the
  \<^verbatim>\<open>catch\<close> clause passes \<^verbatim>\<open>FeatureNotFoundError\<close> on and wraps what the driver
  threw as \<^verbatim>\<open>DatabaseError\<close>.
\<close>

definition FeatureRepository_updateGlobalState ::
    "driver \<Rightarrow> world \<Rightarrow> string \<Rightarrow> bool \<Rightarrow> (error + unit) \<times> world" where
  "FeatureRepository_updateGlobalState drv w0 key' enabled' =
    (let w = enter (Repo_updateGlobalState key' enabled') w0
     in case updateOne drv (coll w) key' (Set_enabled enabled') of
          Inl e \<Rightarrow> (Inl (DatabaseError ''Failed to update feature state''), w)
        | Inr (matchedCount, c) \<Rightarrow>
            if matchedCount = 0 then (Inl (FeatureNotFoundError key'), w\<lparr>coll := c\<rparr>)
            else (Inr (), w\<lparr>coll := c\<rparr>))"

text \<open>\<^verbatim>\<open>FeatureRepository.addOrUpdateOverride\<close>\<close>

definition FeatureRepository_addOrUpdateOverride ::
    "driver \<Rightarrow> world \<Rightarrow> string \<Rightarrow> OverrideType \<Rightarrow> string \<Rightarrow> bool \<Rightarrow> (error + unit) \<times> world" where
  "FeatureRepository_addOrUpdateOverride drv w0 key' type' id' enabled' =
    (let w = enter (Repo_addOrUpdateOverride key' type' id' enabled') w0;
         overrideField' = overrideField type' id'
     in case updateOne drv (coll w) key' (Set_field overrideField' enabled') of
          Inl e \<Rightarrow> (Inl (DatabaseError ''Failed to add override''), w)
        | Inr (matchedCount, c) \<Rightarrow>
            if matchedCount = 0 then (Inl (FeatureNotFoundError key'), w\<lparr>coll := c\<rparr>)
            else (Inr (), w\<lparr>coll := c\<rparr>))"

text \<open>\<^verbatim>\<open>FeatureRepository.removeOverride\<close>\<close>

definition FeatureRepository_removeOverride ::
    "driver \<Rightarrow> world \<Rightarrow> string \<Rightarrow> OverrideType \<Rightarrow> string \<Rightarrow> (error + unit) \<times> world" where
  "FeatureRepository_removeOverride drv w0 key' type' id' =
    (let w = enter (Repo_removeOverride key' type' id') w0;
         overrideField' = overrideField type' id'
     in case updateOne drv (coll w) key' (Unset_field overrideField') of
          Inl e \<Rightarrow> (Inl (DatabaseError ''Failed to remove override''), w)
        | Inr (matchedCount, c) \<Rightarrow>
            if matchedCount = 0 then (Inl (FeatureNotFoundError key'), w\<lparr>coll := c\<rparr>)
            else (Inr (), w\<lparr>coll := c\<rparr>))"

text \<open>\<^verbatim>\<open>FeatureRepository.delete\<close>\<close>

definition FeatureRepository_delete :: "world \<Rightarrow> string \<Rightarrow> (error + unit) \<times> world" where
  "FeatureRepository_delete w0 key' =
    (let w = enter (Repo_delete key') w0;
         (deletedCount, c) = deleteOne (coll w) key'
     in if deletedCount = 0 then (Inl (FeatureNotFoundError key'), w\<lparr>coll := c\<rparr>)
        else (Inr (), w\<lparr>coll := c\<rparr>))"


section \<open>The cache (cache/redis-cache.ts)\<close>

text \<open>
  The Redis client behind the cache: the entries it holds, each with the time to
  live it was stored with, and whether its commands currently fail. A command on a
  failing client throws. Expiry of entries is a matter of time and is not modelled.
\<close>

record RedisClient =
  entries :: "string \<rightharpoonup> string \<times> nat"
  failing :: bool

datatype client_error = ClientError

definition client_get :: "RedisClient \<Rightarrow> string \<Rightarrow> client_error + string option" where
  "client_get c key' =
    (if failing c then Inl ClientError else Inr (map_option fst (entries c key')))"

definition client_setEx :: "RedisClient \<Rightarrow> string \<Rightarrow> nat \<Rightarrow> string \<Rightarrow> client_error + RedisClient" where
  "client_setEx c key' ttl v =
    (if failing c then Inl ClientError else Inr (c\<lparr>entries := (entries c)(key' \<mapsto> (v, ttl))\<rparr>))"

definition client_del :: "RedisClient \<Rightarrow> string \<Rightarrow> client_error + RedisClient" where
  "client_del c key' =
    (if failing c then Inl ClientError else Inr (c\<lparr>entries := (entries c)(key' := None)\<rparr>))"

text \<open>
  The three private fields of \<^verbatim>\<open>class RedisCache\<close>. The client's event handlers
  and \<^verbatim>\<open>connect\<close> set them; the three methods below only read them, so every
  combination of values is a possible state.
\<close>

record RedisCache =
  client :: "RedisClient option"
  isConnected :: bool
  isEnabled :: bool

text \<open>
  \<^verbatim>\<open>RedisCache.get\<close>. A result \<^term>\<open>Inl e\<close> stands for an exception leaving the method;
  the \<^verbatim>\<open>catch\<close> clause turns the client's exception into \<^verbatim>\<open>null\<close>.
\<close>

definition RedisCache_get :: "RedisCache \<Rightarrow> string \<Rightarrow> client_error + string option" where
  "RedisCache_get cache key' =
    (if \<not> isEnabled cache \<or> client cache = None \<or> \<not> isConnected cache then Inr None
     else (case client cache of
             None \<Rightarrow> Inr None
           | Some c \<Rightarrow>
               (case client_get c key' of
                  Inr v \<Rightarrow> Inr v
                | Inl e \<Rightarrow> Inr None)))"

text \<open>
  The time to live \<^verbatim>\<open>ttlSeconds || parseInt(process.env.CACHE_TTL_SECONDS || "300", 10)\<close>:
  \<^verbatim>\<open>ttlSeconds\<close> is optional and \<^verbatim>\<open>0\<close> is falsy; \<^term>\<open>envTtl\<close> is the number the
  environment variable holds, when it is set.
\<close>

definition ttl_of :: "nat option \<Rightarrow> nat option \<Rightarrow> nat" where
  "ttl_of ttlSeconds envTtl =
    (case ttlSeconds of
       Some t \<Rightarrow> if t \<noteq> 0 then t else (case envTtl of Some n \<Rightarrow> n | None \<Rightarrow> 300)
     | None \<Rightarrow> (case envTtl of Some n \<Rightarrow> n | None \<Rightarrow> 300))"

text \<open>\<^verbatim>\<open>RedisCache.set\<close>: returns the cache afterwards.\<close>

definition RedisCache_set ::
    "nat option \<Rightarrow> RedisCache \<Rightarrow> string \<Rightarrow> string \<Rightarrow> nat option \<Rightarrow> client_error + RedisCache" where
  "RedisCache_set envTtl cache key' v ttlSeconds =
    (if \<not> isEnabled cache \<or> client cache = None \<or> \<not> isConnected cache then Inr cache
     else (case client cache of
             None \<Rightarrow> Inr cache
           | Some c \<Rightarrow>
               (case client_setEx c key' (ttl_of ttlSeconds envTtl) v of
                  Inr c' \<Rightarrow> Inr (cache\<lparr>client := Some c'\<rparr>)
                | Inl e \<Rightarrow> Inr cache)))"

text \<open>\<^verbatim>\<open>RedisCache.delete\<close>: returns the cache afterwards.\<close>

definition RedisCache_delete :: "RedisCache \<Rightarrow> string \<Rightarrow> client_error + RedisCache" where
  "RedisCache_delete cache key' =
    (if \<not> isEnabled cache \<or> client cache = None \<or> \<not> isConnected cache then Inr cache
     else (case client cache of
             None \<Rightarrow> Inr cache
           | Some c \<Rightarrow>
               (case client_del c key' of
                  Inr c' \<Rightarrow> Inr (cache\<lparr>client := Some c'\<rparr>)
                | Inl e \<Rightarrow> Inr cache)))"


section \<open>The repository with the cache in front (repositories/feature.repository.ts, second variant)\<close>

text \<open>
  The second \<^verbatim>\<open>FeatureRepository\<close> class holds a \<^verbatim>\<open>RedisCache\<close>; this is the class the
  application and the end-to-end tests construct the service with. Every cache call
  sits inside the method's \<^verbatim>\<open>try\<close> block, so an exception leaving a cache method
  would be wrapped as \<^verbatim>\<open>DatabaseError\<close>. \<^verbatim>\<open>JSON.stringify\<close> of the cacheable copy and
  \<^verbatim>\<open>JSON.parse\<close> with the rebuilding of the three mappings are parameters; the parse
  gives \<^term>\<open>None\<close> where it throws. The method \<^verbatim>\<open>create\<close> has the body it has in the
  first class and does not touch the cache.
\<close>

definition CACHE_KEY_PREFIX :: string where
  "CACHE_KEY_PREFIX = ''feature:''"

definition CachedFeatureRepository_create ::
    "world \<Rightarrow> RedisCache \<Rightarrow> FeatureFlag \<Rightarrow> (error + FeatureFlag) \<times> world \<times> RedisCache" where
  "CachedFeatureRepository_create w0 cache feature =
    (fst (FeatureRepository_create w0 feature), snd (FeatureRepository_create w0 feature), cache)"

definition CachedFeatureRepository_findByKey ::
    "(FeatureFlag \<Rightarrow> string) \<Rightarrow> (string \<Rightarrow> FeatureFlag option) \<Rightarrow> nat option \<Rightarrow>
     world \<Rightarrow> RedisCache \<Rightarrow> string \<Rightarrow> (error + FeatureFlag option) \<times> world \<times> RedisCache" where
  "CachedFeatureRepository_findByKey stringify parse envTtl w0 cache key' =
    (let w = enter (Repo_findByKey key') w0;
         cacheKey = CACHE_KEY_PREFIX @ key'
     in case RedisCache_get cache cacheKey of
          Inl e \<Rightarrow> (Inl (DatabaseError ''Failed to find feature flag''), w, cache)
        | Inr cached \<Rightarrow>
            if truthy_id cached
            then (case parse (id_of cached) of
                    None \<Rightarrow> (Inl (DatabaseError ''Failed to find feature flag''), w, cache)
                  | Some feature \<Rightarrow> (Inr (Some feature), w, cache))
            else (case findOne (coll w) key' of
                    None \<Rightarrow> (Inr None, w, cache)
                  | Some doc \<Rightarrow>
                      (case RedisCache_set envTtl cache cacheKey (stringify (toDomain doc)) None of
                         Inl e \<Rightarrow> (Inl (DatabaseError ''Failed to find feature flag''), w, cache)
                       | Inr cache' \<Rightarrow> (Inr (Some (toDomain doc)), w, cache'))))"

text \<open>
  The tail shared by the four mutating methods: throw \<^verbatim>\<open>FeatureNotFoundError\<close> when
  nothing matched, otherwise invalidate the cached entry.
\<close>

definition invalidate ::
    "string \<Rightarrow> nat \<Rightarrow> world \<Rightarrow> RedisCache \<Rightarrow> string \<Rightarrow> (error + unit) \<times> world \<times> RedisCache" where
  "invalidate msg count' w cache key' =
    (if count' = 0 then (Inl (FeatureNotFoundError key'), w, cache)
     else (case RedisCache_delete cache (CACHE_KEY_PREFIX @ key') of
             Inl e \<Rightarrow> (Inl (DatabaseError msg), w, cache)
           | Inr cache' \<Rightarrow> (Inr (), w, cache')))"

definition CachedFeatureRepository_updateGlobalState ::
    "driver \<Rightarrow> world \<Rightarrow> RedisCache \<Rightarrow> string \<Rightarrow> bool \<Rightarrow> (error + unit) \<times> world \<times> RedisCache" where
  "CachedFeatureRepository_updateGlobalState drv w0 cache key' enabled' =
    (let w = enter (Repo_updateGlobalState key' enabled') w0
     in case updateOne drv (coll w) key' (Set_enabled enabled') of
          Inl e \<Rightarrow> (Inl (DatabaseError ''Failed to update feature state''), w, cache)
        | Inr (matchedCount, c) \<Rightarrow>
            invalidate ''Failed to update feature state'' matchedCount (w\<lparr>coll := c\<rparr>) cache key')"

definition CachedFeatureRepository_addOrUpdateOverride ::
    "driver \<Rightarrow> world \<Rightarrow> RedisCache \<Rightarrow> string \<Rightarrow> OverrideType \<Rightarrow> string \<Rightarrow> bool \<Rightarrow>
     (error + unit) \<times> world \<times> RedisCache" where
  "CachedFeatureRepository_addOrUpdateOverride drv w0 cache key' type' id' enabled' =
    (let w = enter (Repo_addOrUpdateOverride key' type' id' enabled') w0;
         overrideField' = overrideField type' id'
     in case updateOne drv (coll w) key' (Set_field overrideField' enabled') of
          Inl e \<Rightarrow> (Inl (DatabaseError ''Failed to add override''), w, cache)
        | Inr (matchedCount, c) \<Rightarrow>
            invalidate ''Failed to add override'' matchedCount (w\<lparr>coll := c\<rparr>) cache key')"

definition CachedFeatureRepository_removeOverride ::
    "driver \<Rightarrow> world \<Rightarrow> RedisCache \<Rightarrow> string \<Rightarrow> OverrideType \<Rightarrow> string \<Rightarrow>
     (error + unit) \<times> world \<times> RedisCache" where
  "CachedFeatureRepository_removeOverride drv w0 cache key' type' id' =
    (let w = enter (Repo_removeOverride key' type' id') w0;
         overrideField' = overrideField type' id'
     in case updateOne drv (coll w) key' (Unset_field overrideField') of
          Inl e \<Rightarrow> (Inl (DatabaseError ''Failed to remove override''), w, cache)
        | Inr (matchedCount, c) \<Rightarrow>
            invalidate ''Failed to remove override'' matchedCount (w\<lparr>coll := c\<rparr>) cache key')"

definition CachedFeatureRepository_delete ::
    "world \<Rightarrow> RedisCache \<Rightarrow> string \<Rightarrow> (error + unit) \<times> world \<times> RedisCache" where
  "CachedFeatureRepository_delete w0 cache key' =
    (let w = enter (Repo_delete key') w0;
         (deletedCount, c) = deleteOne (coll w) key'
     in invalidate ''Failed to delete feature flag'' deletedCount (w\<lparr>coll := c\<rparr>) cache key')"


section \<open>The repository interface (repositories/feature.repository.ts)\<close>

text \<open>
  \<^verbatim>\<open>interface IFeatureRepository\<close>: what the service is constructed with. A repository
  acts on the collection and the trace, and on a part of its own: the cache for the
  second class, nothing for the first. \<^verbatim>\<open>findAll\<close> is left out with
  \<^verbatim>\<open>getAllFeatures\<close>.
\<close>

record 'c IFeatureRepository =
  create :: "world \<Rightarrow> 'c \<Rightarrow> FeatureFlag \<Rightarrow> (error + FeatureFlag) \<times> world \<times> 'c"
  findByKey :: "world \<Rightarrow> 'c \<Rightarrow> string \<Rightarrow> (error + FeatureFlag option) \<times> world \<times> 'c"
  updateGlobalState :: "world \<Rightarrow> 'c \<Rightarrow> string \<Rightarrow> bool \<Rightarrow> (error + unit) \<times> world \<times> 'c"
  addOrUpdateOverride ::
    "world \<Rightarrow> 'c \<Rightarrow> string \<Rightarrow> OverrideType \<Rightarrow> string \<Rightarrow> bool \<Rightarrow> (error + unit) \<times> world \<times> 'c"
  removeOverride ::
    "world \<Rightarrow> 'c \<Rightarrow> string \<Rightarrow> OverrideType \<Rightarrow> string \<Rightarrow> (error + unit) \<times> world \<times> 'c"
  delete :: "world \<Rightarrow> 'c \<Rightarrow> string \<Rightarrow> (error + unit) \<times> world \<times> 'c"

text \<open>The first class as a repository: its methods, with nothing of its own to carry.\<close>

definition keeping :: "'c \<Rightarrow> 'r \<times> world \<Rightarrow> 'r \<times> world \<times> 'c" where
  "keeping c r = (fst r, snd r, c)"

definition plainRepository :: "driver \<Rightarrow> unit IFeatureRepository" where
  "plainRepository drv =
    \<lparr>create = (\<lambda>w c feature. keeping c (FeatureRepository_create w feature)),
     findByKey = (\<lambda>w c key'. keeping c (FeatureRepository_findByKey w key')),
     updateGlobalState =
       (\<lambda>w c key' enabled'. keeping c (FeatureRepository_updateGlobalState drv w key' enabled')),
     addOrUpdateOverride =
       (\<lambda>w c key' type' id' enabled'.
          keeping c (FeatureRepository_addOrUpdateOverride drv w key' type' id' enabled')),
     removeOverride =
       (\<lambda>w c key' type' id'. keeping c (FeatureRepository_removeOverride drv w key' type' id')),
     delete = (\<lambda>w c key'. keeping c (FeatureRepository_delete w key'))\<rparr>"

text \<open>The second class as a repository, carrying its cache.\<close>

definition cachingRepository ::
    "driver \<Rightarrow> (FeatureFlag \<Rightarrow> string) \<Rightarrow> (string \<Rightarrow> FeatureFlag option) \<Rightarrow> nat option \<Rightarrow>
     RedisCache IFeatureRepository" where
  "cachingRepository drv stringify parse envTtl =
    \<lparr>create = CachedFeatureRepository_create,
     findByKey = CachedFeatureRepository_findByKey stringify parse envTtl,
     updateGlobalState = CachedFeatureRepository_updateGlobalState drv,
     addOrUpdateOverride = CachedFeatureRepository_addOrUpdateOverride drv,
     removeOverride = CachedFeatureRepository_removeOverride drv,
     delete = CachedFeatureRepository_delete\<rparr>"


section \<open>The service (services/feature.service.ts)\<close>

text \<open>
  The service is constructed with a repository, \<^verbatim>\<open>constructor(private repository:
  IFeatureRepository)\<close>, and calls only that. Its state is the state \<^term>\<open>(w, c)\<close> of
  the repository: the collection with the trace, and the repository's own part.

  A validator call as a statement: when it throws, the operation ends with that error
  in the state reached so far; otherwise the rest of the body runs.
\<close>

definition checked :: "error + unit \<Rightarrow> 's \<Rightarrow> (error + 'a) \<times> 's \<Rightarrow> (error + 'a) \<times> 's" where
  "checked v s rest = (case v of Inl e \<Rightarrow> (Inl e, s) | Inr u \<Rightarrow> rest)"

text \<open>The boolean held by a value that has passed \<^verbatim>\<open>validateEnabledState\<close>.\<close>

fun bool_of :: "jsval \<Rightarrow> bool" where
  "bool_of (JBool b) = b"
| "bool_of v = False"

text \<open>\<^verbatim>\<open>FeatureService.createFeature\<close>\<close>

definition FeatureService_createFeature ::
    "'c IFeatureRepository \<Rightarrow> world \<Rightarrow> 'c \<Rightarrow> jsval \<Rightarrow> jsval \<Rightarrow> jsval \<Rightarrow>
     (error + FeatureFlag) \<times> world \<times> 'c" where
  "FeatureService_createFeature repository w c key' description' enabled' =
    checked (validateFeatureKey key') (w, c)
   (checked (validateDescription description') (w, c)
   (checked (validateEnabledState enabled') (w, c)
   (create repository w c
      \<lparr>key = str_of key',
       description = field_of description',
       enabled = bool_of enabled',
       overrides = \<lparr>users = Map.empty, groups = Map.empty, regions = Some Map.empty\<rparr>\<rparr>)))"

text \<open>\<^verbatim>\<open>FeatureService.getFeature\<close>\<close>

definition FeatureService_getFeature ::
    "'c IFeatureRepository \<Rightarrow> world \<Rightarrow> 'c \<Rightarrow> jsval \<Rightarrow> (error + FeatureFlag) \<times> world \<times> 'c" where
  "FeatureService_getFeature repository w c key' =
    checked (validateFeatureKey key') (w, c)
     (case findByKey repository w c (str_of key') of
        (Inl e, s') \<Rightarrow> (Inl e, s')
      | (Inr None, s') \<Rightarrow> (Inl (FeatureNotFoundError (str_of key')), s')
      | (Inr (Some feature), s') \<Rightarrow> (Inr feature, s'))"

text \<open>\<^verbatim>\<open>FeatureService.evaluateFeature\<close>\<close>

definition FeatureService_evaluateFeature ::
    "'c IFeatureRepository \<Rightarrow> world \<Rightarrow> 'c \<Rightarrow> jsval \<Rightarrow> jsval \<Rightarrow>
     (error + EvaluationResult) \<times> world \<times> 'c" where
  "FeatureService_evaluateFeature repository w c key' context =
    checked (validateFeatureKey key') (w, c)
   (checked (validateEvaluationContext context) (w, c)
     (case FeatureService_getFeature repository w c key' of
        (Inl e, s') \<Rightarrow> (Inl e, s')
      | (Inr feature, w', c') \<Rightarrow>
          (Inr (evaluate feature (context_of context)),
           enter (Engine_evaluate (key feature)) w', c')))"

text \<open>\<^verbatim>\<open>FeatureService.updateGlobalState\<close>\<close>

definition FeatureService_updateGlobalState ::
    "'c IFeatureRepository \<Rightarrow> world \<Rightarrow> 'c \<Rightarrow> jsval \<Rightarrow> jsval \<Rightarrow> (error + unit) \<times> world \<times> 'c" where
  "FeatureService_updateGlobalState repository w c key' enabled' =
    checked (validateFeatureKey key') (w, c)
   (checked (validateEnabledState enabled') (w, c)
     (updateGlobalState repository w c (str_of key') (bool_of enabled')))"

text \<open>\<^verbatim>\<open>FeatureService.addOrUpdateOverride\<close>\<close>

definition FeatureService_addOrUpdateOverride ::
    "'c IFeatureRepository \<Rightarrow> world \<Rightarrow> 'c \<Rightarrow> jsval \<Rightarrow> jsval \<Rightarrow> jsval \<Rightarrow> jsval \<Rightarrow>
     (error + unit) \<times> world \<times> 'c" where
  "FeatureService_addOrUpdateOverride repository w c key' type' id' enabled' =
    checked (validateFeatureKey key') (w, c)
   (checked (validateOverrideType type') (w, c)
   (checked (validateOverrideId id') (w, c)
   (checked (validateEnabledState enabled') (w, c)
     (case FeatureService_getFeature repository w c key' of
        (Inl e, s') \<Rightarrow> (Inl e, s')
      | (Inr feature, w', c') \<Rightarrow>
          addOrUpdateOverride repository w' c' (str_of key') (overrideType_of type')
            (str_of id') (bool_of enabled')))))"

text \<open>\<^verbatim>\<open>FeatureService.removeOverride\<close>\<close>

definition FeatureService_removeOverride ::
    "'c IFeatureRepository \<Rightarrow> world \<Rightarrow> 'c \<Rightarrow> jsval \<Rightarrow> jsval \<Rightarrow> jsval \<Rightarrow>
     (error + unit) \<times> world \<times> 'c" where
  "FeatureService_removeOverride repository w c key' type' id' =
    checked (validateFeatureKey key') (w, c)
   (checked (validateOverrideType type') (w, c)
   (checked (validateOverrideId id') (w, c)
     (case FeatureService_getFeature repository w c key' of
        (Inl e, s') \<Rightarrow> (Inl e, s')
      | (Inr feature, w', c') \<Rightarrow>
          removeOverride repository w' c' (str_of key') (overrideType_of type') (str_of id'))))"

text \<open>\<^verbatim>\<open>FeatureService.deleteFeature\<close>\<close>

definition FeatureService_deleteFeature ::
    "'c IFeatureRepository \<Rightarrow> world \<Rightarrow> 'c \<Rightarrow> jsval \<Rightarrow> (error + unit) \<times> world \<times> 'c" where
  "FeatureService_deleteFeature repository w c key' =
    checked (validateFeatureKey key') (w, c)
     (delete repository w c (str_of key'))"


section \<open>Vocabulary of the properties\<close>

text \<open>
  The three override tiers in one notation: the identifier a context carries for a
  tier, the mapping a flag holds for it (a missing \<^verbatim>\<open>regions\<close> mapping has no
  entries), the reason it reports, and the tiers of higher precedence.
\<close>

fun ctx_id :: "OverrideType \<Rightarrow> EvaluationContext \<Rightarrow> string option" where
  "ctx_id User c = userId c"
| "ctx_id Group c = groupId c"
| "ctx_id Region c = regionId c"

fun tier_map :: "OverrideType \<Rightarrow> FeatureFlag \<Rightarrow> (string \<rightharpoonup> bool)" where
  "tier_map User f = users (overrides f)"
| "tier_map Group f = groups (overrides f)"
| "tier_map Region f = (case regions (overrides f) of None \<Rightarrow> Map.empty | Some m \<Rightarrow> m)"

fun tier_reason :: "OverrideType \<Rightarrow> reason" where
  "tier_reason User = UserOverride"
| "tier_reason Group = GroupOverride"
| "tier_reason Region = RegionOverride"

fun higher :: "OverrideType \<Rightarrow> OverrideType list" where
  "higher User = []"
| "higher Group = [User]"
| "higher Region = [User, Group]"

text \<open>
  A tier matches when the context carries a non-empty identifier for it and the
  tier's mapping has an entry under that identifier.
\<close>

definition tier_matches :: "OverrideType \<Rightarrow> FeatureFlag \<Rightarrow> EvaluationContext \<Rightarrow> bool" where
  "tier_matches t f c =
    (case ctx_id t c of None \<Rightarrow> False | Some i \<Rightarrow> i \<noteq> [] \<and> tier_map t f i \<noteq> None)"

definition no_higher_match :: "OverrideType \<Rightarrow> FeatureFlag \<Rightarrow> EvaluationContext \<Rightarrow> bool" where
  "no_higher_match t f c = list_all (\<lambda>t'. \<not> tier_matches t' f c) (higher t)"

text \<open>The context with the identifier of one tier, or of a tier and all higher ones, removed.\<close>

fun clear_id :: "OverrideType \<Rightarrow> EvaluationContext \<Rightarrow> EvaluationContext" where
  "clear_id User c = c\<lparr>userId := None\<rparr>"
| "clear_id Group c = c\<lparr>groupId := None\<rparr>"
| "clear_id Region c = c\<lparr>regionId := None\<rparr>"

definition lower_only :: "OverrideType \<Rightarrow> EvaluationContext \<Rightarrow> EvaluationContext" where
  "lower_only t c = fold clear_id (t # higher t) c"

text \<open>
  The key format as the data model words it, \<^verbatim>\<open>[A-Za-z0-9_-]{1,100}\<close>: between 1 and
  100 characters, each one of the 64 listed here.
\<close>

definition key_alphabet :: string where
  "key_alphabet =
     ''ABCDEFGHIJKLMNOPQRSTUVWXYZ'' @ ''abcdefghijklmnopqrstuvwxyz'' @ ''0123456789'' @ ''_-''"

definition matches_key_format :: "string \<Rightarrow> bool" where
  "matches_key_format s =
     (1 \<le> length s \<and> length s \<le> 100 \<and> list_all (\<lambda>c. c \<in> set key_alphabet) s)"

text \<open>An outcome that is a \<^verbatim>\<open>ValidationError\<close>.\<close>

fun is_validation_error :: "error + 'a \<Rightarrow> bool" where
  "is_validation_error (Inl (ValidationError m)) = True"
| "is_validation_error r = False"

text \<open>
  An outcome thrown by a validator: a \<^verbatim>\<open>ValidationError\<close>, or the \<^verbatim>\<open>TypeError\<close> of a
  message that could not be built.
\<close>

fun thrown_by_validator :: "error + 'a \<Rightarrow> bool" where
  "thrown_by_validator (Inl (ValidationError m)) = True"
| "thrown_by_validator (Inl TypeError) = True"
| "thrown_by_validator r = False"

text \<open>
  An operation started in state \<^term>\<open>s\<close> was stopped by a validator: its outcome
  \<^term>\<open>r\<close> is what the validator threw, and the state is as it was, collection,
  trace and the repository's own part, so that no repository call was made.
\<close>

definition stopped_by_validator :: "'s \<Rightarrow> (error + 'a) \<times> 's \<Rightarrow> bool" where
  "stopped_by_validator s r = (thrown_by_validator (fst r) \<and> snd r = s)"


text \<open>
  One driver, for the examples. It splits a path at its dots; a path
  \<^verbatim>\<open>overrides.<mapping>.<name>\<close> whose last segment is not empty and does not begin
  with \<^verbatim>\<open>$\<close> gets the documented meaning, every other path is refused. No theorem
  with a driver as a variable depends on this choice.
\<close>

fun split_path :: "string \<Rightarrow> string list" where
  "split_path [] = [[]]"
| "split_path (c # cs) =
     (if c = CHR ''.'' then [] # split_path cs
      else (case split_path cs of
              [] \<Rightarrow> [[c]]
            | s # ss \<Rightarrow> (c # s) # ss))"

definition mapping_of_name :: "string \<Rightarrow> OverrideType option" where
  "mapping_of_name m =
    (if m = ''users'' then Some User
     else if m = ''groups'' then Some Group
     else if m = ''regions'' then Some Region
     else None)"

definition field_driver :: driver where
  "field_driver path v =
    (case split_path path of
       [a, m, i] \<Rightarrow>
         (case mapping_of_name m of
            None \<Rightarrow> None
          | Some t \<Rightarrow>
              if a = ''overrides'' \<and> i \<noteq> [] \<and> hd i \<noteq> CHR ''$''
              then Some (apply_update
                     (case v of Some b \<Rightarrow> SetOverride t i b | None \<Rightarrow> UnsetOverride t i))
              else None)
     | other \<Rightarrow> None)"



text \<open>The events an operation added to the trace.\<close>

definition new_events :: "world \<Rightarrow> world \<Rightarrow> event list" where
  "new_events w w' = drop (length (trace w)) (trace w')"

fun is_engine_call :: "event \<Rightarrow> bool" where
  "is_engine_call (Engine_evaluate k) = True"
| "is_engine_call ev = False"

text \<open>
  A cache that cannot serve: switched off, without a client, not connected, or with
  a client whose commands fail.
\<close>

definition unavailable :: "RedisCache \<Rightarrow> bool" where
  "unavailable cache =
    (\<not> isEnabled cache \<or> \<not> isConnected cache
     \<or> (case client cache of None \<Rightarrow> True | Some c \<Rightarrow> failing c))"

text \<open>
  The cache serves an entry for a flag key: a lookup under the prefixed key returns
  a non-empty text. The served entry is unreadable when the parse throws on it.
\<close>

definition serves :: "RedisCache \<Rightarrow> string \<Rightarrow> bool" where
  "serves cache k =
    (case RedisCache_get cache (CACHE_KEY_PREFIX @ k) of
       Inl e \<Rightarrow> False
     | Inr cached \<Rightarrow> truthy_id cached)"


text \<open>
  A method of the repository with the cache in front gives the outcome and the
  state of its counterpart without a cache.
\<close>

definition same_as_uncached ::
    "(error + 'a) \<times> world \<times> RedisCache \<Rightarrow> (error + 'a) \<times> world \<Rightarrow> bool" where
  "same_as_uncached r r0 = (fst r = fst r0 \<and> fst (snd r) = snd r0)"

text \<open>
  States for the examples: the flag \<^verbatim>\<open>dark-mode\<close>, globally on, first in the
  collection, then deleted from it, and in the collection with an override for the
  user \<^verbatim>\<open>user-123\<close>; a cache that works, empty and holding the flag's text; the
  same cache while its client fails. The serialisation is given on
  this one flag: its text is abbreviated, and parsing that text gives the flag back.
\<close>

definition dark_mode :: FeatureFlag where
  "dark_mode =
    \<lparr>key = ''dark-mode'', description = Some ''Dark mode'', enabled = True,
     overrides = \<lparr>users = Map.empty, groups = Map.empty, regions = Some Map.empty\<rparr>\<rparr>"

definition example_stringify :: "FeatureFlag \<Rightarrow> string" where
  "example_stringify feature = ''json:'' @ key feature"

definition example_parse :: "string \<Rightarrow> FeatureFlag option" where
  "example_parse text' = (if text' = ''json:dark-mode'' then Some dark_mode else None)"

definition fresh_world :: world where
  "fresh_world = \<lparr>coll = [''dark-mode'' \<mapsto> dark_mode], trace = []\<rparr>"

definition stale_world :: world where
  "stale_world =
    \<lparr>coll = Map.empty, trace = [Repo_findByKey ''dark-mode'', Repo_delete ''dark-mode'']\<rparr>"


definition empty_cache :: RedisCache where
  "empty_cache =
    \<lparr>client = Some \<lparr>entries = Map.empty, failing = False\<rparr>,
     isConnected = True, isEnabled = True\<rparr>"

definition filled_cache :: RedisCache where
  "filled_cache =
    \<lparr>client = Some \<lparr>entries = [''feature:dark-mode'' \<mapsto> (''json:dark-mode'', 300)],
                     failing = False\<rparr>,
     isConnected = True, isEnabled = True\<rparr>"

definition failing_cache :: RedisCache where
  "failing_cache =
    \<lparr>client = Some \<lparr>entries = [''feature:dark-mode'' \<mapsto> (''json:dark-mode'', 300)],
                     failing = True\<rparr>,
     isConnected = True, isEnabled = True\<rparr>"


section \<open>The evaluation engine: precedence\<close>

text \<open>Each guard of \<^const>\<open>evaluate\<close> is the match of its tier.\<close>

lemma guard_User:
  "(truthy_id (userId c) \<and> map_has (users (overrides f)) (id_of (userId c))) = tier_matches User f c"
  by (simp add: truthy_id_def map_has_def id_of_def tier_matches_def split: option.splits)

lemma guard_Group:
  "(truthy_id (groupId c) \<and> map_has (groups (overrides f)) (id_of (groupId c))) = tier_matches Group f c"
  by (simp add: truthy_id_def map_has_def id_of_def tier_matches_def split: option.splits)

lemma guard_Region:
  "(truthy_id (regionId c) \<and> opt_has (regions (overrides f)) (id_of (regionId c))) = tier_matches Region f c"
  by (simp add: truthy_id_def map_has_def opt_has_def id_of_def tier_matches_def split: option.splits)

lemma value_Region: "opt_get (regions (overrides f)) k = map_get (tier_map Region f) k"
  by (simp add: opt_get_def map_get_def split: option.splits)

lemma evaluate_cascade:
  "evaluate f c =
    (if tier_matches User f c
     then \<lparr>EvaluationResult.key = key f,
           EvaluationResult.enabled = map_get (tier_map User f) (id_of (ctx_id User c)),
           reason = UserOverride\<rparr>
     else if tier_matches Group f c
     then \<lparr>EvaluationResult.key = key f,
           EvaluationResult.enabled = map_get (tier_map Group f) (id_of (ctx_id Group c)),
           reason = GroupOverride\<rparr>
     else if tier_matches Region f c
     then \<lparr>EvaluationResult.key = key f,
           EvaluationResult.enabled = map_get (tier_map Region f) (id_of (ctx_id Region c)),
           reason = RegionOverride\<rparr>
     else \<lparr>EvaluationResult.key = key f,
           EvaluationResult.enabled = FeatureFlag.enabled f,
           reason = GlobalDefault\<rparr>)"
  unfolding evaluate_def guard_User guard_Group guard_Region value_Region
  by simp

lemma reason_cascade:
  "reason (evaluate f c) =
    (if tier_matches User f c then UserOverride
     else if tier_matches Group f c then GroupOverride
     else if tier_matches Region f c then RegionOverride
     else GlobalDefault)"
  by (simp add: evaluate_cascade)

lemma tier_matchesI:
  "ctx_id t c = Some i \<Longrightarrow> i \<noteq> [] \<Longrightarrow> tier_map t f i = Some b \<Longrightarrow> tier_matches t f c"
  by (simp add: tier_matches_def)

lemma no_higher_match_simps:
  "no_higher_match User f c = True"
  "no_higher_match Group f c = (\<not> tier_matches User f c)"
  "no_higher_match Region f c = (\<not> tier_matches User f c \<and> \<not> tier_matches Group f c)"
  by (simp_all add: no_higher_match_def)

lemma evaluate_tier:
  assumes "ctx_id t c = Some i" "i \<noteq> []" "tier_map t f i = Some b" "no_higher_match t f c"
  shows "evaluate f c =
    \<lparr>EvaluationResult.key = key f, EvaluationResult.enabled = b, reason = tier_reason t\<rparr>"
proof -
  have m: "tier_matches t f c"
    using assms by (simp add: tier_matchesI)
  have v: "map_get (tier_map t f) (id_of (ctx_id t c)) = b"
    using assms by (simp add: map_get_def id_of_def)
  show ?thesis
    using m v assms(4) by (cases t) (simp_all add: evaluate_cascade no_higher_match_simps)
qed

lemma evaluate_global:
  assumes "\<not> tier_matches User f c" "\<not> tier_matches Group f c" "\<not> tier_matches Region f c"
  shows "evaluate f c =
    \<lparr>EvaluationResult.key = key f, EvaluationResult.enabled = FeatureFlag.enabled f,
     reason = GlobalDefault\<rparr>"
  using assms by (simp add: evaluate_cascade)

lemma some_highest_match:
  "(\<exists>t. tier_matches t f c \<and> no_higher_match t f c) \<or> (\<forall>t. \<not> tier_matches t f c)"
proof (cases "tier_matches User f c")
  case True
  then have "tier_matches User f c \<and> no_higher_match User f c"
    by (simp add: no_higher_match_simps)
  then show ?thesis by blast
next
  case nu: False
  show ?thesis
  proof (cases "tier_matches Group f c")
    case True
    with nu have "tier_matches Group f c \<and> no_higher_match Group f c"
      by (simp add: no_higher_match_simps)
    then show ?thesis by blast
  next
    case ng: False
    show ?thesis
    proof (cases "tier_matches Region f c")
      case True
      with nu ng have "tier_matches Region f c \<and> no_higher_match Region f c"
        by (simp add: no_higher_match_simps)
      then show ?thesis by blast
    next
      case False
      with nu ng have "\<not> tier_matches t f c" for t
        by (cases t) simp_all
      then show ?thesis by blast
    qed
  qed
qed

text \<open>
  C1, as the code has it. For every flag record and every evaluation context,
  \<^const>\<open>evaluate\<close> returns the result of the highest-precedence tier (user, then
  group, then region) for which the context supplies a non-empty identifier that is
  present in that tier's override mapping: the flag's key, that tier's reason and the
  boolean stored under the identifier. If no tier matches, the reason is
  \<^const>\<open>GlobalDefault\<close> and the value is the flag's global \<^verbatim>\<open>enabled\<close> field. One of
  the two cases always applies. An empty-string identifier counts as not supplied.
\<close>

theorem evaluate_precedence:
  "(ctx_id t c = Some i \<and> i \<noteq> [] \<and> tier_map t f i = Some b \<and> no_higher_match t f c
      \<longrightarrow> evaluate f c =
            \<lparr>EvaluationResult.key = key f, EvaluationResult.enabled = b,
             reason = tier_reason t\<rparr>)
   \<and> ((\<forall>t'. \<not> tier_matches t' f c)
      \<longrightarrow> evaluate f c =
            \<lparr>EvaluationResult.key = key f, EvaluationResult.enabled = FeatureFlag.enabled f,
             reason = GlobalDefault\<rparr>)
   \<and> ((\<exists>t'. tier_matches t' f c \<and> no_higher_match t' f c) \<or> (\<forall>t'. \<not> tier_matches t' f c))"
proof (intro conjI impI)
  assume "ctx_id t c = Some i \<and> i \<noteq> [] \<and> tier_map t f i = Some b \<and> no_higher_match t f c"
  then show "evaluate f c =
      \<lparr>EvaluationResult.key = key f, EvaluationResult.enabled = b, reason = tier_reason t\<rparr>"
    by (simp add: evaluate_tier)
next
  assume "\<forall>t'. \<not> tier_matches t' f c"
  then show "evaluate f c =
      \<lparr>EvaluationResult.key = key f, EvaluationResult.enabled = FeatureFlag.enabled f,
       reason = GlobalDefault\<rparr>"
    by (simp add: evaluate_global)
next
  show "(\<exists>t'. tier_matches t' f c \<and> no_higher_match t' f c) \<or> (\<forall>t'. \<not> tier_matches t' f c)"
    by (rule some_highest_match)
qed

text \<open>
  The scenario of the full hierarchy: flag \<^verbatim>\<open>premium\<close>, globally off, group
  \<^verbatim>\<open>enterprise-customers\<close> on, user \<^verbatim>\<open>u1\<close> off; the user tier decides.
\<close>

theorem evaluate_precedence_witness:
  "evaluate
     \<lparr>key = ''premium'', description = Some ''Premium'', enabled = False,
      overrides = \<lparr>users = map_of [(''u1'', False)],
                   groups = map_of [(''enterprise-customers'', True)],
                   regions = Some (map_of [])\<rparr>\<rparr>
     \<lparr>userId = Some ''u1'', groupId = Some ''enterprise-customers'', regionId = None\<rparr>
   = \<lparr>EvaluationResult.key = ''premium'', EvaluationResult.enabled = False,
      reason = UserOverride\<rparr>"
  using evaluate_precedence
    [of User "\<lparr>userId = Some ''u1'', groupId = Some ''enterprise-customers'', regionId = None\<rparr>"
        "''u1''"
        "\<lparr>key = ''premium'', description = Some ''Premium'', enabled = False,
          overrides = \<lparr>users = map_of [(''u1'', False)],
                       groups = map_of [(''enterprise-customers'', True)],
                       regions = Some (map_of [])\<rparr>\<rparr>"
        False]
  by (simp add: no_higher_match_def)

text \<open>
  Without the word ``non-empty'' the statement fails: the context supplies the
  identifier \<^verbatim>\<open>""\<close>, the \<^verbatim>\<open>users\<close> mapping has an entry \<^verbatim>\<open>"" \<mapsto> true\<close>, and the engine
  answers with the global default \<^verbatim>\<open>false\<close>, not with the user override.
\<close>

theorem evaluate_precedence_counterexample:
  "ctx_id User \<lparr>userId = Some [], groupId = None, regionId = None\<rparr> = Some []
   \<and> tier_map User
        \<lparr>key = ''k'', description = Some ''d'', enabled = False,
         overrides = \<lparr>users = map_of [([], True)], groups = map_of [], regions = None\<rparr>\<rparr>
        [] = Some True
   \<and> evaluate
        \<lparr>key = ''k'', description = Some ''d'', enabled = False,
         overrides = \<lparr>users = map_of [([], True)], groups = map_of [], regions = None\<rparr>\<rparr>
        \<lparr>userId = Some [], groupId = None, regionId = None\<rparr>
      = \<lparr>EvaluationResult.key = ''k'', EvaluationResult.enabled = False,
         reason = GlobalDefault\<rparr>
   \<and> evaluate
        \<lparr>key = ''k'', description = Some ''d'', enabled = False,
         overrides = \<lparr>users = map_of [([], True)], groups = map_of [], regions = None\<rparr>\<rparr>
        \<lparr>userId = Some [], groupId = None, regionId = None\<rparr>
      \<noteq> \<lparr>EvaluationResult.key = ''k'', EvaluationResult.enabled = True,
         reason = UserOverride\<rparr>"
  by (simp add: evaluate_def truthy_id_def)


section \<open>The evaluation engine: an absent entry and an entry that says no\<close>

text \<open>
  A tier that does not match, below tiers that do not match either, hands the
  decision to the tiers below it.
\<close>

lemma lower_only_ids:
  "userId (lower_only t c) = None"
  "groupId (lower_only User c) = groupId c"
  "groupId (lower_only Group c) = None"
  "groupId (lower_only Region c) = None"
  "regionId (lower_only User c) = regionId c"
  "regionId (lower_only Group c) = regionId c"
  "regionId (lower_only Region c) = None"
  by (cases t; simp add: lower_only_def)+

lemma tier_matches_lower_only:
  "tier_matches User f (lower_only t c) = False"
  "tier_matches Group f (lower_only User c) = tier_matches Group f c"
  "tier_matches Group f (lower_only Group c) = False"
  "tier_matches Group f (lower_only Region c) = False"
  "tier_matches Region f (lower_only User c) = tier_matches Region f c"
  "tier_matches Region f (lower_only Group c) = tier_matches Region f c"
  "tier_matches Region f (lower_only Region c) = False"
  by (simp_all add: tier_matches_def lower_only_ids)

lemma evaluate_fall_through:
  assumes "\<not> tier_matches t f c" "no_higher_match t f c"
  shows "evaluate f c = evaluate f (lower_only t c)"
  using assms
  by (cases t)
     (simp_all add: evaluate_cascade no_higher_match_simps tier_matches_lower_only lower_only_ids)

lemma reason_fall_through:
  assumes "\<not> tier_matches t f c"
  shows "reason (evaluate f c) \<noteq> tier_reason t"
  using assms by (cases t) (simp_all add: reason_cascade)

text \<open>
  C2, as the code has it. Take a flag record, a tier, and a non-empty identifier the
  context supplies for that tier, with no tier of higher precedence matching. If the
  tier's mapping holds the identifier with value \<^verbatim>\<open>false\<close>, \<^const>\<open>evaluate\<close> returns
  that tier's reason with \<^verbatim>\<open>enabled = false\<close>. If the mapping has no entry for the
  identifier, evaluation falls through: the result is the one the lower tiers alone
  give, and its reason is not that tier's. The two cases give different results.
\<close>

theorem absent_entry_differs_from_false:
  assumes "ctx_id t c = Some i" and "i \<noteq> []" and "no_higher_match t f c"
  shows "(tier_map t f i = Some False \<longrightarrow>
            evaluate f c =
              \<lparr>EvaluationResult.key = key f, EvaluationResult.enabled = False,
               reason = tier_reason t\<rparr>)
       \<and> (tier_map t f i = None \<longrightarrow>
            evaluate f c = evaluate f (lower_only t c)
            \<and> reason (evaluate f c) \<noteq> tier_reason t)
       \<and> (tier_map t f i = Some False \<and> tier_map t g i = None \<and> no_higher_match t g c \<longrightarrow>
            evaluate f c \<noteq> evaluate g c)"
proof (intro conjI impI)
  assume "tier_map t f i = Some False"
  with assms show "evaluate f c =
      \<lparr>EvaluationResult.key = key f, EvaluationResult.enabled = False, reason = tier_reason t\<rparr>"
    by (simp add: evaluate_tier)
next
  assume "tier_map t f i = None"
  with assms(1) have "\<not> tier_matches t f c"
    by (simp add: tier_matches_def)
  then show "evaluate f c = evaluate f (lower_only t c)"
    using assms(3) by (rule evaluate_fall_through)
next
  assume "tier_map t f i = None"
  with assms(1) have "\<not> tier_matches t f c"
    by (simp add: tier_matches_def)
  then show "reason (evaluate f c) \<noteq> tier_reason t"
    by (rule reason_fall_through)
next
  assume h: "tier_map t f i = Some False \<and> tier_map t g i = None \<and> no_higher_match t g c"
  with assms have "reason (evaluate f c) = tier_reason t"
    by (simp add: evaluate_tier)
  moreover from h assms(1) have "\<not> tier_matches t g c"
    by (simp add: tier_matches_def)
  then have "reason (evaluate g c) \<noteq> tier_reason t"
    by (rule reason_fall_through)
  ultimately show "evaluate f c \<noteq> evaluate g c"
    by auto
qed

text \<open>
  A flag that is on globally, once with the group entry \<^verbatim>\<open>beta \<mapsto> false\<close> and once
  without it, evaluated for a context of group \<^verbatim>\<open>beta\<close>.
\<close>

theorem absent_entry_differs_from_false_witness:
  "evaluate
     \<lparr>key = ''dark-mode'', description = Some ''Dark mode'', enabled = True,
      overrides = \<lparr>users = map_of [], groups = map_of [(''beta'', False)],
                   regions = Some (map_of [])\<rparr>\<rparr>
     \<lparr>userId = None, groupId = Some ''beta'', regionId = None\<rparr>
   = \<lparr>EvaluationResult.key = ''dark-mode'', EvaluationResult.enabled = False,
      reason = GroupOverride\<rparr>
   \<and> evaluate
     \<lparr>key = ''dark-mode'', description = Some ''Dark mode'', enabled = True,
      overrides = \<lparr>users = map_of [], groups = map_of [(''beta'', False)],
                   regions = Some (map_of [])\<rparr>\<rparr>
     \<lparr>userId = None, groupId = Some ''beta'', regionId = None\<rparr>
   \<noteq> evaluate
     \<lparr>key = ''dark-mode'', description = Some ''Dark mode'', enabled = True,
      overrides = \<lparr>users = map_of [], groups = map_of [], regions = Some (map_of [])\<rparr>\<rparr>
     \<lparr>userId = None, groupId = Some ''beta'', regionId = None\<rparr>"
  using absent_entry_differs_from_false
    [of Group "\<lparr>userId = None, groupId = Some ''beta'', regionId = None\<rparr>" "''beta''"
        "\<lparr>key = ''dark-mode'', description = Some ''Dark mode'', enabled = True,
          overrides = \<lparr>users = map_of [], groups = map_of [(''beta'', False)],
                       regions = Some (map_of [])\<rparr>\<rparr>"
        "\<lparr>key = ''dark-mode'', description = Some ''Dark mode'', enabled = True,
          overrides = \<lparr>users = map_of [], groups = map_of [], regions = Some (map_of [])\<rparr>\<rparr>"]
  by (simp add: no_higher_match_def tier_matches_def evaluate_def truthy_id_def map_has_def
      map_get_def id_of_def opt_has_def)

text \<open>
  Without the two conditions the statement fails, at one input for both. The
  context supplies \<^verbatim>\<open>""\<close> as user, \<^verbatim>\<open>g\<close> as group and \<^verbatim>\<open>r\<close> as region; the
  mappings hold \<^verbatim>\<open>"" \<mapsto> false\<close> for users, \<^verbatim>\<open>g \<mapsto> true\<close> for groups and
  \<^verbatim>\<open>r \<mapsto> false\<close> for regions. The user entry with value \<^verbatim>\<open>false\<close> is passed over
  because its identifier is empty, and the region entry with value \<^verbatim>\<open>false\<close> is never
  reached because the group tier matches: the result is the group override,
  \<^verbatim>\<open>true\<close>.
\<close>

theorem absent_entry_differs_from_false_counterexample:
  "ctx_id User \<lparr>userId = Some [], groupId = Some ''g'', regionId = Some ''r''\<rparr> = Some []
   \<and> tier_map User
        \<lparr>key = ''k'', description = Some ''d'', enabled = True,
         overrides = \<lparr>users = map_of [([], False)], groups = map_of [(''g'', True)],
                      regions = Some (map_of [(''r'', False)])\<rparr>\<rparr>
        [] = Some False
   \<and> ctx_id Region \<lparr>userId = Some [], groupId = Some ''g'', regionId = Some ''r''\<rparr> = Some ''r''
   \<and> tier_map Region
        \<lparr>key = ''k'', description = Some ''d'', enabled = True,
         overrides = \<lparr>users = map_of [([], False)], groups = map_of [(''g'', True)],
                      regions = Some (map_of [(''r'', False)])\<rparr>\<rparr>
        ''r'' = Some False
   \<and> evaluate
        \<lparr>key = ''k'', description = Some ''d'', enabled = True,
         overrides = \<lparr>users = map_of [([], False)], groups = map_of [(''g'', True)],
                      regions = Some (map_of [(''r'', False)])\<rparr>\<rparr>
        \<lparr>userId = Some [], groupId = Some ''g'', regionId = Some ''r''\<rparr>
      = \<lparr>EvaluationResult.key = ''k'', EvaluationResult.enabled = True,
         reason = GroupOverride\<rparr>"
  by (simp add: evaluate_def truthy_id_def map_has_def map_get_def id_of_def)


section \<open>The evaluation engine: lower tiers behind a match\<close>

text \<open>
  The result depends on a flag only through its key and the mappings of the matching
  tier and the tiers above it.
\<close>

lemma tier_matches_cong:
  "tier_map t f = tier_map t g \<Longrightarrow> tier_matches t f c = tier_matches t g c"
  unfolding tier_matches_def by (cases "ctx_id t c") simp_all

lemma evaluate_agree:
  assumes "tier_matches t f c"
    and "key g = key f"
    and "tier_map t g = tier_map t f"
    and "list_all (\<lambda>t'. tier_map t' g = tier_map t' f) (higher t)"
  shows "evaluate g c = evaluate f c"
proof (cases t)
  case User
  with assms(1,3) have "tier_matches User f c" "tier_map User g = tier_map User f"
    by simp_all
  moreover from this have "tier_matches User g c"
    using tier_matches_cong [of User g f c] by simp
  ultimately show ?thesis
    using assms(2) by (simp add: evaluate_cascade)
next
  case Group
  with assms(1,3,4) have "tier_matches Group f c" "tier_map Group g = tier_map Group f"
    "tier_map User g = tier_map User f"
    by simp_all
  moreover from this have "tier_matches Group g c" "tier_matches User g c = tier_matches User f c"
    using tier_matches_cong [of Group g f c] tier_matches_cong [of User g f c] by simp_all
  ultimately show ?thesis
    using assms(2) by (simp add: evaluate_cascade)
next
  case Region
  with assms(1,3,4) have "tier_matches Region f c" "tier_map Region g = tier_map Region f"
    "tier_map User g = tier_map User f" "tier_map Group g = tier_map Group f"
    by simp_all
  moreover from this have "tier_matches Region g c"
    "tier_matches User g c = tier_matches User f c"
    "tier_matches Group g c = tier_matches Group f c"
    using tier_matches_cong [of Region g f c] tier_matches_cong [of User g f c]
      tier_matches_cong [of Group g f c] by simp_all
  ultimately show ?thesis
    using assms(2) by (simp add: evaluate_cascade)
qed

lemma tier_map_set_entry:
  "t \<noteq> t' \<Longrightarrow> tier_map t (f\<lparr>overrides := set_entry t' i b (overrides f)\<rparr>) = tier_map t f"
  by (cases t; cases t') simp_all

lemma tier_map_unset_entry:
  "t \<noteq> t' \<Longrightarrow> tier_map t (f\<lparr>overrides := unset_entry t' i (overrides f)\<rparr>) = tier_map t f"
  by (cases t; cases t') simp_all

lemma tier_map_enabled:
  "tier_map t (f\<lparr>FeatureFlag.enabled := b\<rparr>) = tier_map t f"
  by (cases t) simp_all

lemma higher_cases:
  "t \<in> set (higher t') \<Longrightarrow> t \<noteq> t' \<and> list_all (\<lambda>t''. t'' \<noteq> t') (higher t)"
  by (cases t; cases t') simp_all

text \<open>
  C3. For every flag record and context where a tier matches, setting (adding or
  changing) or removing an entry in the override mapping of any tier of lower
  precedence leaves the result of \<^const>\<open>evaluate\<close> unchanged, and so does changing
  the global \<^verbatim>\<open>enabled\<close> default. The changes are the ones the store applies:
  \<^const>\<open>SetOverride\<close>, \<^const>\<open>UnsetOverride\<close> and \<^const>\<open>SetEnabled\<close>. A tier matches when
  its guard in the engine holds, that is \<^const>\<open>tier_matches\<close>.
\<close>

theorem lower_tiers_do_not_matter:
  "(tier_matches t f c \<and> t \<in> set (higher t') \<longrightarrow>
       evaluate (apply_update (SetOverride t' i b) f) c = evaluate f c
     \<and> evaluate (apply_update (UnsetOverride t' i) f) c = evaluate f c)
   \<and> (tier_matches t f c \<longrightarrow> evaluate (apply_update (SetEnabled b) f) c = evaluate f c)"
proof (intro conjI impI)
  assume h: "tier_matches t f c \<and> t \<in> set (higher t')"
  then have ne: "t \<noteq> t'" and hs: "list_all (\<lambda>t''. t'' \<noteq> t') (higher t)"
    using higher_cases by blast+
  from hs have "list_all
      (\<lambda>t''. tier_map t'' (apply_update (SetOverride t' i b) f) = tier_map t'' f) (higher t)"
    by (simp add: list_all_iff tier_map_set_entry)
  with h ne show "evaluate (apply_update (SetOverride t' i b) f) c = evaluate f c"
    by (intro evaluate_agree [of t]) (simp_all add: tier_map_set_entry)
  from hs have "list_all
      (\<lambda>t''. tier_map t'' (apply_update (UnsetOverride t' i) f) = tier_map t'' f) (higher t)"
    by (simp add: list_all_iff tier_map_unset_entry)
  with h ne show "evaluate (apply_update (UnsetOverride t' i) f) c = evaluate f c"
    by (intro evaluate_agree [of t]) (simp_all add: tier_map_unset_entry)
next
  assume "tier_matches t f c"
  then show "evaluate (apply_update (SetEnabled b) f) c = evaluate f c"
    by (intro evaluate_agree [of t]) (simp_all add: list_all_iff tier_map_enabled)
qed

text \<open>
  The flag \<^verbatim>\<open>premium\<close> with user \<^verbatim>\<open>u1\<close> off, evaluated for user \<^verbatim>\<open>u1\<close> in group
  \<^verbatim>\<open>enterprise-customers\<close>: switching the group on, and switching the flag on
  globally, both leave the answer at the user override.
\<close>

theorem lower_tiers_do_not_matter_witness:
  "evaluate
     (apply_update (SetOverride Group ''enterprise-customers'' True)
        \<lparr>key = ''premium'', description = Some ''Premium'', enabled = False,
         overrides = \<lparr>users = map_of [(''u1'', False)], groups = map_of [],
                      regions = Some (map_of [])\<rparr>\<rparr>)
     \<lparr>userId = Some ''u1'', groupId = Some ''enterprise-customers'', regionId = None\<rparr>
   = \<lparr>EvaluationResult.key = ''premium'', EvaluationResult.enabled = False,
      reason = UserOverride\<rparr>
   \<and> evaluate
     (apply_update (SetEnabled True)
        \<lparr>key = ''premium'', description = Some ''Premium'', enabled = False,
         overrides = \<lparr>users = map_of [(''u1'', False)], groups = map_of [],
                      regions = Some (map_of [])\<rparr>\<rparr>)
     \<lparr>userId = Some ''u1'', groupId = Some ''enterprise-customers'', regionId = None\<rparr>
   = \<lparr>EvaluationResult.key = ''premium'', EvaluationResult.enabled = False,
      reason = UserOverride\<rparr>"
  using lower_tiers_do_not_matter
    [of User
        "\<lparr>key = ''premium'', description = Some ''Premium'', enabled = False,
          overrides = \<lparr>users = map_of [(''u1'', False)], groups = map_of [],
                       regions = Some (map_of [])\<rparr>\<rparr>"
        "\<lparr>userId = Some ''u1'', groupId = Some ''enterprise-customers'', regionId = None\<rparr>"
        Group "''enterprise-customers''" True]
  by (simp add: tier_matches_def evaluate_def truthy_id_def map_has_def map_get_def id_of_def)


section \<open>The evaluation engine: bulk evaluation and the empty identifier\<close>

text \<open>
  C4. For every list of flag records and every context, \<^const>\<open>evaluateMultiple\<close>
  returns a list of the same length whose element at each position is
  \<^const>\<open>evaluate\<close> applied to the flag at that position and the context. Flags do
  not interact: replacing the flag at one position leaves the results at all other
  positions as they were.
\<close>

theorem evaluateMultiple_pointwise:
  "length (evaluateMultiple fs c) = length fs
   \<and> (\<forall>i < length fs. evaluateMultiple fs c ! i = evaluate (fs ! i) c)
   \<and> (\<forall>i < length fs. \<forall>j g. j \<noteq> i \<longrightarrow>
         evaluateMultiple (fs[j := g]) c ! i = evaluateMultiple fs c ! i)"
proof (intro conjI allI impI)
  show "length (evaluateMultiple fs c) = length fs"
    by (simp add: evaluateMultiple_def)
next
  fix i assume "i < length fs"
  then show "evaluateMultiple fs c ! i = evaluate (fs ! i) c"
    by (simp add: evaluateMultiple_def)
next
  fix i j g assume "i < length fs" and "j \<noteq> i"
  then show "evaluateMultiple (fs[j := g]) c ! i = evaluateMultiple fs c ! i"
    by (simp add: evaluateMultiple_def)
qed

text \<open>Two flags evaluated for user \<^verbatim>\<open>u1\<close>; the second has an override for that user.\<close>

theorem evaluateMultiple_pointwise_witness:
  "length (evaluateMultiple
      [\<lparr>key = ''a'', description = Some ''A'', enabled = True,
        overrides = \<lparr>users = map_of [], groups = map_of [], regions = None\<rparr>\<rparr>,
       \<lparr>key = ''b'', description = Some ''B'', enabled = True,
        overrides = \<lparr>users = map_of [(''u1'', False)], groups = map_of [], regions = None\<rparr>\<rparr>]
      \<lparr>userId = Some ''u1'', groupId = None, regionId = None\<rparr>) = 2
   \<and> evaluateMultiple
      [\<lparr>key = ''a'', description = Some ''A'', enabled = True,
        overrides = \<lparr>users = map_of [], groups = map_of [], regions = None\<rparr>\<rparr>,
       \<lparr>key = ''b'', description = Some ''B'', enabled = True,
        overrides = \<lparr>users = map_of [(''u1'', False)], groups = map_of [], regions = None\<rparr>\<rparr>]
      \<lparr>userId = Some ''u1'', groupId = None, regionId = None\<rparr> ! 1
     = \<lparr>EvaluationResult.key = ''b'', EvaluationResult.enabled = False,
        reason = UserOverride\<rparr>"
proof -
  let ?fs = "[\<lparr>key = ''a'', description = Some ''A'', enabled = True,
           overrides = \<lparr>users = map_of [], groups = map_of [], regions = None\<rparr>\<rparr>,
          \<lparr>key = ''b'', description = Some ''B'', enabled = True,
           overrides = \<lparr>users = map_of [(''u1'', False)], groups = map_of [], regions = None\<rparr>\<rparr>]"
  let ?c = "\<lparr>userId = Some ''u1'', groupId = None, regionId = None\<rparr>"
  have len: "length (evaluateMultiple ?fs ?c) = length ?fs"
    and nth: "\<forall>i < length ?fs. evaluateMultiple ?fs ?c ! i = evaluate (?fs ! i) ?c"
    using evaluateMultiple_pointwise [of ?fs ?c] by blast+
  have "(1::nat) < length ?fs"
    by simp
  with nth have "evaluateMultiple ?fs ?c ! 1 = evaluate (?fs ! 1) ?c"
    by blast
  also have "\<dots> = \<lparr>EvaluationResult.key = ''b'', EvaluationResult.enabled = False,
        reason = UserOverride\<rparr>"
    by (simp add: evaluate_def truthy_id_def map_has_def map_get_def id_of_def)
  finally show ?thesis
    using len by simp
qed

text \<open>
  C10. For every flag record, an empty-string identifier in the context is treated
  as absent: the result is the one for the context without that identifier, and its
  reason is never that tier's, whatever the tier's mapping holds, also an entry
  under the empty string.
\<close>

theorem empty_identifier_never_selects:
  assumes "ctx_id t c = Some []"
  shows "evaluate f c = evaluate f (clear_id t c) \<and> reason (evaluate f c) \<noteq> tier_reason t"
proof -
  have n: "\<not> tier_matches t f c"
    using assms by (simp add: tier_matches_def)
  have "tier_matches User f (clear_id t c) = tier_matches User f c"
       "tier_matches Group f (clear_id t c) = tier_matches Group f c"
       "tier_matches Region f (clear_id t c) = tier_matches Region f c"
    using assms by (cases t; simp add: tier_matches_def)+
  moreover have "map_get m (id_of (userId (clear_id t c))) = map_get m (id_of (userId c))"
       "map_get m (id_of (groupId (clear_id t c))) = map_get m (id_of (groupId c))"
       "map_get m (id_of (regionId (clear_id t c))) = map_get m (id_of (regionId c))" for m
    using assms by (cases t; simp add: id_of_def)+
  ultimately have "evaluate f c = evaluate f (clear_id t c)"
    by (simp add: evaluate_cascade)
  moreover from n have "reason (evaluate f c) \<noteq> tier_reason t"
    by (rule reason_fall_through)
  ultimately show ?thesis
    by blast
qed

text \<open>
  A flag whose \<^verbatim>\<open>users\<close> mapping has the entry \<^verbatim>\<open>"" \<mapsto> true\<close>, asked for the user
  \<^verbatim>\<open>""\<close>: the answer is the global default.
\<close>

theorem empty_identifier_never_selects_witness:
  "evaluate
     \<lparr>key = ''k'', description = Some ''d'', enabled = False,
      overrides = \<lparr>users = map_of [([], True)], groups = map_of [], regions = None\<rparr>\<rparr>
     \<lparr>userId = Some [], groupId = None, regionId = None\<rparr>
   = evaluate
     \<lparr>key = ''k'', description = Some ''d'', enabled = False,
      overrides = \<lparr>users = map_of [([], True)], groups = map_of [], regions = None\<rparr>\<rparr>
     \<lparr>userId = None, groupId = None, regionId = None\<rparr>
   \<and> reason (evaluate
     \<lparr>key = ''k'', description = Some ''d'', enabled = False,
      overrides = \<lparr>users = map_of [([], True)], groups = map_of [], regions = None\<rparr>\<rparr>
     \<lparr>userId = Some [], groupId = None, regionId = None\<rparr>) \<noteq> UserOverride"
  using empty_identifier_never_selects
    [of User "\<lparr>userId = Some [], groupId = None, regionId = None\<rparr>"
        "\<lparr>key = ''k'', description = Some ''d'', enabled = False,
          overrides = \<lparr>users = map_of [([], True)], groups = map_of [], regions = None\<rparr>\<rparr>"]
  by (simp add: evaluate_def truthy_id_def)


section \<open>Validators: the key format\<close>

text \<open>
  The character class of the regular expression is the alphabet of the format, no
  character of it is white space, and so \<^const>\<open>trim\<close> leaves a string of such
  characters alone.
\<close>

lemma keyPattern_class_alphabet: "keyPattern_class c \<longleftrightarrow> c \<in> set key_alphabet"
  unfolding keyPattern_class_def key_alphabet_def
  by (cases c) (simp add: less_eq_char_def; blast)

lemma keyPattern_class_not_whitespace: "keyPattern_class c \<Longrightarrow> \<not> is_js_whitespace c"
  unfolding keyPattern_class_alphabet key_alphabet_def is_js_whitespace_def
  by auto

lemma dropWhile_none: "list_all (\<lambda>c. \<not> P c) s \<Longrightarrow> dropWhile P s = s"
  by (cases s) simp_all

lemma trim_key:
  assumes "list_all keyPattern_class s"
  shows "trim s = s"
proof -
  from assms have a: "list_all (\<lambda>c. \<not> is_js_whitespace c) s"
    by (simp add: list_all_iff keyPattern_class_not_whitespace)
  then have "list_all (\<lambda>c. \<not> is_js_whitespace c) (rev s)"
    by (simp add: list_all_iff)
  with a show ?thesis
    by (simp add: trim_def dropWhile_none)
qed

lemma keyPattern_test_format:
  "keyPattern_test s \<and> length s \<le> 100 \<longleftrightarrow> matches_key_format s"
  by (cases s) (auto simp: keyPattern_test_def matches_key_format_def keyPattern_class_alphabet list_all_iff)

lemma validateFeatureKey_JStr:
  "validateFeatureKey (JStr s) = Inr () \<longleftrightarrow> matches_key_format s"
proof (cases "keyPattern_test s")
  case True
  then have "trim s = s" "s \<noteq> []"
    by (simp_all add: keyPattern_test_def trim_key)
  with True show ?thesis
    using keyPattern_test_format [of s]
    by (auto simp: validateFeatureKey_def)
next
  case False
  then show ?thesis
    using keyPattern_test_format [of s]
    by (auto simp: validateFeatureKey_def)
qed

lemma validateFeatureKey_outcome:
  "validateFeatureKey v = Inr () \<or> is_validation_error (validateFeatureKey v)"
  by (simp add: validateFeatureKey_def)

text \<open>
  C7. \<^const>\<open>validateFeatureKey\<close> accepts exactly the strings of the format
  \<^verbatim>\<open>[A-Za-z0-9_-]{1,100}\<close>, that is \<^const>\<open>matches_key_format\<close>: between 1 and 100
  characters, only ASCII letters, digits, underscore and hyphen. Every other input,
  a string outside the format or a value that is not a string, ends in a
  \<^verbatim>\<open>ValidationError\<close>.
\<close>

theorem validateFeatureKey_accepts_exactly:
  "(validateFeatureKey v = Inr () \<longleftrightarrow> (\<exists>s. v = JStr s \<and> matches_key_format s))
   \<and> (validateFeatureKey v = Inr () \<or> is_validation_error (validateFeatureKey v))"
proof
  show "validateFeatureKey v = Inr () \<longleftrightarrow> (\<exists>s. v = JStr s \<and> matches_key_format s)"
  proof (cases v)
    case (JStr s)
    then show ?thesis by (simp add: validateFeatureKey_JStr)
  qed (simp_all add: validateFeatureKey_def)
next
  show "validateFeatureKey v = Inr () \<or> is_validation_error (validateFeatureKey v)"
    by (rule validateFeatureKey_outcome)
qed

text \<open>
  Keys from the unit tests: \<^verbatim>\<open>valid-key\<close> and \<^verbatim>\<open>validKey123\<close> pass,
  \<^verbatim>\<open>invalid key\<close> does not.
\<close>

theorem validateFeatureKey_accepts_exactly_witness:
  "validateFeatureKey (JStr ''valid-key'') = Inr ()
   \<and> validateFeatureKey (JStr ''validKey123'') = Inr ()
   \<and> validateFeatureKey (JStr ''invalid key'') \<noteq> Inr ()"
  using validateFeatureKey_accepts_exactly [of "JStr ''valid-key''"]
    validateFeatureKey_accepts_exactly [of "JStr ''validKey123''"]
    validateFeatureKey_accepts_exactly [of "JStr ''invalid key''"]
  by (simp add: matches_key_format_def key_alphabet_def)


section \<open>The service: validation comes first\<close>

text \<open>
  A validator returns, or throws a \<^verbatim>\<open>ValidationError\<close>, or, for
  \<^const>\<open>validateOverrideType\<close> alone, throws the \<^verbatim>\<open>TypeError\<close> of its message. Each
  operation is a chain of \<^const>\<open>checked\<close> validators in front of its first repository
  call, whatever repository the service was constructed with.
\<close>

lemma checked_Inr: "checked (Inr ()) s rest = rest"
  by (simp add: checked_def)

lemma checked_Inl: "checked (Inl e) s rest = (Inl e, s)"
  by (simp add: checked_def)

lemma thrown_by_validator_Inl:
  "thrown_by_validator (Inl e) =
     (case e of ValidationError m \<Rightarrow> True | TypeError \<Rightarrow> True | other \<Rightarrow> False)"
  by (cases e) simp_all

lemma validator_outcomes:
  "validateFeatureKey v = Inr () \<or> thrown_by_validator (validateFeatureKey v)"
  "validateDescription v = Inr () \<or> thrown_by_validator (validateDescription v)"
  "validateEnabledState v = Inr () \<or> thrown_by_validator (validateEnabledState v)"
  "validateOverrideType v = Inr () \<or> thrown_by_validator (validateOverrideType v)"
  "validateOverrideId v = Inr () \<or> thrown_by_validator (validateOverrideId v)"
  by (simp_all add: validateFeatureKey_def validateDescription_def validateEnabledState_def
      validateOverrideType_def validateOverrideId_def)

lemma validateEvaluationContext_outcome:
  "validateEvaluationContext v = Inr () \<or> thrown_by_validator (validateEvaluationContext v)"
proof -
  have a: "validate_if_defined x = Inr () \<or> thrown_by_validator (validate_if_defined x)" for x
    using validator_outcomes(5) [of x] by (simp add: validate_if_defined_def)
  show ?thesis
    using a [of "get_prop v ''userId''"] a [of "get_prop v ''groupId''"]
      a [of "get_prop v ''regionId''"]
    by (auto simp: validateEvaluationContext_def split: sum.splits)
qed


lemma stopped_here:
  "v \<noteq> Inr () \<Longrightarrow> v = Inr () \<or> thrown_by_validator v \<Longrightarrow>
   stopped_by_validator s (checked v s rest)"
  by (cases v) (auto simp: checked_def stopped_by_validator_def thrown_by_validator_Inl)

lemma stopped_later:
  "v = Inr () \<or> thrown_by_validator v \<Longrightarrow> (v = Inr () \<Longrightarrow> stopped_by_validator s rest) \<Longrightarrow>
   stopped_by_validator s (checked v s rest)"
  by (cases v) (auto simp: checked_def stopped_by_validator_def thrown_by_validator_Inl)

lemma createFeature_stopped:
  assumes "validateFeatureKey k \<noteq> Inr () \<or> validateDescription d \<noteq> Inr ()
           \<or> validateEnabledState e \<noteq> Inr ()"
  shows "stopped_by_validator (w, c) (FeatureService_createFeature repository w c k d e)"
  unfolding FeatureService_createFeature_def
  using assms
  by (intro stopped_later validator_outcomes) auto

lemma getFeature_stopped:
  assumes "validateFeatureKey k \<noteq> Inr ()"
  shows "stopped_by_validator (w, c) (FeatureService_getFeature repository w c k)"
  unfolding FeatureService_getFeature_def
  using assms
  by (intro stopped_later validator_outcomes) auto

lemma evaluateFeature_stopped:
  assumes "validateFeatureKey k \<noteq> Inr () \<or> validateEvaluationContext x \<noteq> Inr ()"
  shows "stopped_by_validator (w, c) (FeatureService_evaluateFeature repository w c k x)"
  unfolding FeatureService_evaluateFeature_def
  using assms
  by (intro stopped_later validator_outcomes validateEvaluationContext_outcome) auto

lemma updateGlobalState_stopped:
  assumes "validateFeatureKey k \<noteq> Inr () \<or> validateEnabledState e \<noteq> Inr ()"
  shows "stopped_by_validator (w, c) (FeatureService_updateGlobalState repository w c k e)"
  unfolding FeatureService_updateGlobalState_def
  using assms
  by (intro stopped_later validator_outcomes) auto

lemma addOrUpdateOverride_stopped:
  assumes "validateFeatureKey k \<noteq> Inr () \<or> validateOverrideType t \<noteq> Inr ()
           \<or> validateOverrideId i \<noteq> Inr () \<or> validateEnabledState e \<noteq> Inr ()"
  shows "stopped_by_validator (w, c) (FeatureService_addOrUpdateOverride repository w c k t i e)"
  unfolding FeatureService_addOrUpdateOverride_def
  using assms
  by (intro stopped_later validator_outcomes) auto

lemma removeOverride_stopped:
  assumes "validateFeatureKey k \<noteq> Inr () \<or> validateOverrideType t \<noteq> Inr ()
           \<or> validateOverrideId i \<noteq> Inr ()"
  shows "stopped_by_validator (w, c) (FeatureService_removeOverride repository w c k t i)"
  unfolding FeatureService_removeOverride_def
  using assms
  by (intro stopped_later validator_outcomes) auto

lemma deleteFeature_stopped:
  assumes "validateFeatureKey k \<noteq> Inr ()"
  shows "stopped_by_validator (w, c) (FeatureService_deleteFeature repository w c k)"
  unfolding FeatureService_deleteFeature_def
  using assms
  by (intro stopped_later validator_outcomes) auto

text \<open>
  The order of the calls, for every repository: in each of the seven operations,
  when a validator rejects its argument the operation ends with what that validator
  threw, in the state it started in. Collection, trace and the repository's own part
  are unchanged, so no repository method was entered.
\<close>

lemma validators_precede_store:
  "(validateFeatureKey k \<noteq> Inr () \<or> validateDescription d \<noteq> Inr ()
      \<or> validateEnabledState e \<noteq> Inr () \<longrightarrow>
      stopped_by_validator (w, c) (FeatureService_createFeature repository w c k d e))
   \<and> (validateFeatureKey k \<noteq> Inr () \<longrightarrow>
      stopped_by_validator (w, c) (FeatureService_getFeature repository w c k))
   \<and> (validateFeatureKey k \<noteq> Inr () \<or> validateEvaluationContext x \<noteq> Inr () \<longrightarrow>
      stopped_by_validator (w, c) (FeatureService_evaluateFeature repository w c k x))
   \<and> (validateFeatureKey k \<noteq> Inr () \<or> validateEnabledState e \<noteq> Inr () \<longrightarrow>
      stopped_by_validator (w, c) (FeatureService_updateGlobalState repository w c k e))
   \<and> (validateFeatureKey k \<noteq> Inr () \<or> validateOverrideType t \<noteq> Inr ()
      \<or> validateOverrideId i \<noteq> Inr () \<or> validateEnabledState e \<noteq> Inr () \<longrightarrow>
      stopped_by_validator (w, c) (FeatureService_addOrUpdateOverride repository w c k t i e))
   \<and> (validateFeatureKey k \<noteq> Inr () \<or> validateOverrideType t \<noteq> Inr ()
      \<or> validateOverrideId i \<noteq> Inr () \<longrightarrow>
      stopped_by_validator (w, c) (FeatureService_removeOverride repository w c k t i))
   \<and> (validateFeatureKey k \<noteq> Inr () \<longrightarrow>
      stopped_by_validator (w, c) (FeatureService_deleteFeature repository w c k))"
  by (intro conjI impI createFeature_stopped getFeature_stopped evaluateFeature_stopped
      updateGlobalState_stopped addOrUpdateOverride_stopped removeOverride_stopped
      deleteFeature_stopped)

text \<open>
  C6. Every invalid input is to end in a validation failure raised before any
  repository call. The order is as required for every input, by the lemma above; the
  kind of failure is not, at this input: \<^verbatim>\<open>POST /api/features/dark-mode/overrides\<close>
  with the body \<^verbatim>\<open>{ "type": { "toString": 1 }, "id": "u1", "enabled": true }\<close> passes
  that body's \<^verbatim>\<open>type\<close> to \<^const>\<open>FeatureService_addOrUpdateOverride\<close>. The type is
  not one of the three literals, so \<^const>\<open>validateOverrideType\<close> goes on to build
  its message, and the conversion of the object to a string throws. The operation
  ends in \<^verbatim>\<open>TypeError\<close>, which is not a \<^verbatim>\<open>ValidationError\<close>, where the validator's
  own \<^verbatim>\<open>throw new ValidationError\<close> and the test ``should return 400 for invalid
  override type'' expect a validation failure. The repository, here the one with the
  cache and holding the flag, is not reached: the state is the state before the call.
\<close>

theorem override_type_message_throws:
  "validateOverrideType (JObj [(''toString'', JNum 1)]) = Inl TypeError
   \<and> FeatureService_addOrUpdateOverride
       (cachingRepository field_driver example_stringify example_parse None)
       fresh_world empty_cache
       (JStr ''dark-mode'') (JObj [(''toString'', JNum 1)]) (JStr ''u1'') (JBool True)
     = (Inl TypeError, fresh_world, empty_cache)
   \<and> \<not> is_validation_error (fst (FeatureService_addOrUpdateOverride
       (cachingRepository field_driver example_stringify example_parse None)
       fresh_world empty_cache
       (JStr ''dark-mode'') (JObj [(''toString'', JNum 1)]) (JStr ''u1'') (JBool True)))"
proof -
  have k: "validateFeatureKey (JStr ''dark-mode'') = Inr ()"
    by (simp add: validateFeatureKey_def trim_def is_js_whitespace_def keyPattern_test_def
        keyPattern_class_def)
  have t: "validateOverrideType (JObj [(''toString'', JNum 1)]) = Inl TypeError"
    by (simp add: validateOverrideType_def validTypes_def)
  show ?thesis
    by (simp add: k t FeatureService_addOrUpdateOverride_def checked_Inr checked_Inl)
qed



section \<open>The cache never fails its caller\<close>

text \<open>
  Each cache method has a result for every state, and the tail of a mutating method
  of the caching repository therefore never ends in \<^verbatim>\<open>DatabaseError\<close>.
\<close>

lemma cache_get_total: "\<exists>v. RedisCache_get cache k = Inr v"
  by (simp add: RedisCache_get_def split: option.splits sum.splits)

lemma cache_set_total: "\<exists>c'. RedisCache_set envTtl cache k v ttl = Inr c'"
  by (simp add: RedisCache_set_def split: option.splits sum.splits)

lemma cache_delete_total: "\<exists>c'. RedisCache_delete cache k = Inr c'"
  by (simp add: RedisCache_delete_def split: option.splits sum.splits)

lemma cache_unavailable:
  assumes "unavailable cache"
  shows "RedisCache_get cache k = Inr None"
    and "RedisCache_set envTtl cache k v ttl = Inr cache"
    and "RedisCache_delete cache k = Inr cache"
  using assms
  by (auto simp: unavailable_def RedisCache_get_def RedisCache_set_def RedisCache_delete_def
      client_get_def client_setEx_def client_del_def split: option.splits)

lemma invalidate_outcome:
  "fst (invalidate msg n w cache k) = (if n = 0 then Inl (FeatureNotFoundError k) else Inr ())"
  "fst (snd (invalidate msg n w cache k)) = w"
  using cache_delete_total [of cache "CACHE_KEY_PREFIX @ k"]
  by (auto simp: invalidate_def)

lemma cached_mutations:
  "same_as_uncached (CachedFeatureRepository_updateGlobalState drv w cache k b)
     (FeatureRepository_updateGlobalState drv w k b)"
  "same_as_uncached (CachedFeatureRepository_addOrUpdateOverride drv w cache k t i b)
     (FeatureRepository_addOrUpdateOverride drv w k t i b)"
  "same_as_uncached (CachedFeatureRepository_removeOverride drv w cache k t i)
     (FeatureRepository_removeOverride drv w k t i)"
  "same_as_uncached (CachedFeatureRepository_delete w cache k)
     (FeatureRepository_delete w k)"
  by (simp_all add: same_as_uncached_def invalidate_outcome Let_def split_def
      CachedFeatureRepository_updateGlobalState_def FeatureRepository_updateGlobalState_def
      CachedFeatureRepository_addOrUpdateOverride_def FeatureRepository_addOrUpdateOverride_def
      CachedFeatureRepository_removeOverride_def FeatureRepository_removeOverride_def
      CachedFeatureRepository_delete_def FeatureRepository_delete_def
      split: sum.splits)

lemma unavailable_not_serves: "unavailable cache \<Longrightarrow> \<not> serves cache k"
  by (simp add: serves_def cache_unavailable truthy_id_def)

lemma cached_findByKey_not_served:
  assumes "\<not> serves cache k"
  shows "same_as_uncached (CachedFeatureRepository_findByKey stringify parse envTtl w cache k)
     (FeatureRepository_findByKey w k)"
proof -
  obtain v where v: "RedisCache_get cache (CACHE_KEY_PREFIX @ k) = Inr v"
    using cache_get_total by blast
  with assms have n: "\<not> truthy_id v"
    by (simp add: serves_def)
  show ?thesis
  proof (cases "coll w k")
    case None
    with v n show ?thesis
      by (simp add: same_as_uncached_def CachedFeatureRepository_findByKey_def
          FeatureRepository_findByKey_def findOne_def enter_def Let_def)
  next
    case (Some doc)
    obtain c' where "RedisCache_set envTtl cache (CACHE_KEY_PREFIX @ k)
        (stringify (toDomain doc)) None = Inr c'"
      using cache_set_total by blast
    with v n Some show ?thesis
      by (simp add: same_as_uncached_def CachedFeatureRepository_findByKey_def
          FeatureRepository_findByKey_def findOne_def enter_def Let_def)
  qed
qed

lemma cached_findByKey_unavailable:
  assumes "unavailable cache"
  shows "same_as_uncached (CachedFeatureRepository_findByKey stringify parse envTtl w cache k)
     (FeatureRepository_findByKey w k)"
  using assms by (intro cached_findByKey_not_served unavailable_not_serves)

text \<open>
  C9. For every cache state, key and value, \<^const>\<open>RedisCache_get\<close>,
  \<^const>\<open>RedisCache_set\<close> and \<^const>\<open>RedisCache_delete\<close> return normally. When the cache
  is disabled, has no client, is not connected, or its client's commands fail,
  \<^verbatim>\<open>get\<close> returns \<^verbatim>\<open>null\<close> and \<^verbatim>\<open>set\<close> and \<^verbatim>\<open>delete\<close> leave the cache as it was.
  So the store operation around them is not failed by the cache: with such a
  cache the lookup of the caching repository gives what the plain repository gives,
  and its four mutating methods give what the plain ones give for every cache state
  and every driver.
\<close>

theorem cache_never_fails_caller:
  "(\<exists>r. RedisCache_get cache k = Inr r)
   \<and> (\<exists>c'. RedisCache_set envTtl cache k v ttl = Inr c')
   \<and> (\<exists>c'. RedisCache_delete cache k = Inr c')
   \<and> (unavailable cache \<longrightarrow>
        RedisCache_get cache k = Inr None
        \<and> RedisCache_set envTtl cache k v ttl = Inr cache
        \<and> RedisCache_delete cache k = Inr cache
        \<and> same_as_uncached (CachedFeatureRepository_findByKey stringify parse envTtl w cache k)
            (FeatureRepository_findByKey w k))
   \<and> same_as_uncached (CachedFeatureRepository_updateGlobalState drv w cache k b)
        (FeatureRepository_updateGlobalState drv w k b)
   \<and> same_as_uncached (CachedFeatureRepository_addOrUpdateOverride drv w cache k t i b)
        (FeatureRepository_addOrUpdateOverride drv w k t i b)
   \<and> same_as_uncached (CachedFeatureRepository_removeOverride drv w cache k t i)
        (FeatureRepository_removeOverride drv w k t i)
   \<and> same_as_uncached (CachedFeatureRepository_delete w cache k)
        (FeatureRepository_delete w k)"
  by (intro conjI impI cache_get_total cache_set_total cache_delete_total cache_unavailable
      cached_findByKey_unavailable cached_mutations)

text \<open>
  A cache that is switched off, and a connected one whose client fails although it
  holds the key: both give a miss, and a delete on the second changes nothing.
\<close>

theorem cache_never_fails_caller_witness:
  "RedisCache_get \<lparr>client = None, isConnected = False, isEnabled = False\<rparr> ''feature:k''
     = Inr None
   \<and> RedisCache_get
       \<lparr>client = Some \<lparr>entries = map_of [(''feature:k'', (''{}'', 300))], failing = True\<rparr>,
        isConnected = True, isEnabled = True\<rparr> ''feature:k''
     = Inr None
   \<and> RedisCache_delete
       \<lparr>client = Some \<lparr>entries = map_of [(''feature:k'', (''{}'', 300))], failing = True\<rparr>,
        isConnected = True, isEnabled = True\<rparr> ''feature:k''
     = Inr \<lparr>client = Some \<lparr>entries = map_of [(''feature:k'', (''{}'', 300))], failing = True\<rparr>,
            isConnected = True, isEnabled = True\<rparr>"
  using cache_never_fails_caller
      [where cache = "\<lparr>client = None, isConnected = False, isEnabled = False\<rparr>"
         and k = "''feature:k''"]
    cache_never_fails_caller
      [where cache = "\<lparr>client = Some \<lparr>entries = map_of [(''feature:k'', (''{}'', 300))],
                                        failing = True\<rparr>,
                       isConnected = True, isEnabled = True\<rparr>"
         and k = "''feature:k''"]
  by (simp add: unavailable_def)



section \<open>The service: evaluating a flag that is not there\<close>

text \<open>
  With valid arguments the operation is the lookup of the repository it was
  constructed with, followed by the engine when the lookup returned a flag.
\<close>

lemma new_events_enter: "new_events w (enter ev w) = [ev]"
  by (simp add: new_events_def enter_def)

lemma key_toDomain: "key (toDomain doc) = key doc"
  by (simp add: toDomain_def)

lemma getFeature_valid:
  assumes "validateFeatureKey k = Inr ()"
  shows "FeatureService_getFeature repository w c k =
    (case findByKey repository w c (str_of k) of
       (Inl e, s') \<Rightarrow> (Inl e, s')
     | (Inr None, s') \<Rightarrow> (Inl (FeatureNotFoundError (str_of k)), s')
     | (Inr (Some feature), s') \<Rightarrow> (Inr feature, s'))"
  using assms by (simp add: FeatureService_getFeature_def checked_Inr)

lemma evaluateFeature_valid:
  assumes "validateFeatureKey k = Inr ()" and "validateEvaluationContext x = Inr ()"
  shows "FeatureService_evaluateFeature repository w c k x =
    (case findByKey repository w c (str_of k) of
       (Inl e, s') \<Rightarrow> (Inl e, s')
     | (Inr None, s') \<Rightarrow> (Inl (FeatureNotFoundError (str_of k)), s')
     | (Inr (Some feature), w', c') \<Rightarrow>
         (Inr (evaluate feature (context_of x)), enter (Engine_evaluate (key feature)) w', c'))"
  using assms
  by (simp add: FeatureService_evaluateFeature_def checked_Inr getFeature_valid
      split: prod.splits sum.splits option.splits)

lemma plain_findByKey:
  "findByKey (plainRepository drv) w c k =
    (case coll w k of
       None \<Rightarrow> (Inr None, enter (Repo_findByKey k) w, c)
     | Some doc \<Rightarrow> (Inr (Some (toDomain doc)), enter (Repo_findByKey k) w, c))"
  by (simp add: plainRepository_def keeping_def FeatureRepository_findByKey_def findOne_def
      enter_def Let_def split: option.splits)

lemma caching_findByKey_not_served:
  assumes "\<not> serves cache k"
  shows "\<exists>cache'. findByKey (cachingRepository drv stringify parse envTtl) w cache k =
    (case coll w k of
       None \<Rightarrow> (Inr None, enter (Repo_findByKey k) w, cache)
     | Some doc \<Rightarrow> (Inr (Some (toDomain doc)), enter (Repo_findByKey k) w, cache'))"
proof -
  obtain v where v: "RedisCache_get cache (CACHE_KEY_PREFIX @ k) = Inr v"
    using cache_get_total by blast
  with assms have n: "\<not> truthy_id v"
    by (simp add: serves_def)
  show ?thesis
  proof (cases "coll w k")
    case None
    with v n show ?thesis
      by (simp add: cachingRepository_def CachedFeatureRepository_findByKey_def findOne_def
          enter_def Let_def)
  next
    case (Some doc)
    obtain c' where "RedisCache_set envTtl cache (CACHE_KEY_PREFIX @ k)
        (stringify (toDomain doc)) None = Inr c'"
      using cache_set_total by blast
    with v n Some show ?thesis
      by (simp add: cachingRepository_def CachedFeatureRepository_findByKey_def findOne_def
          enter_def Let_def)
  qed
qed

text \<open>
  C5, as the code has it. For every well-formed key and valid context:
  \<^const>\<open>FeatureService_evaluateFeature\<close> fails with \<^const>\<open>FeatureNotFoundError\<close> for
  the key, the lookup being the only event it adds to the trace, so that the engine
  was not called, when the collection holds no record under the key and the service
  runs on the repository without a cache, or on the repository with a cache that
  serves no entry for the key. It returns the engine's result for the stored record
  when the record exists, under the same condition on the cache. For every
  repository, the outcome follows the repository's lookup: not found without a call
  of the engine when the lookup returns nothing, the engine's result for the flag
  the lookup returns otherwise, be it read from the store or from the cache.
\<close>

theorem evaluateFeature_not_found:
  assumes "validateFeatureKey k = Inr ()" and "validateEvaluationContext x = Inr ()"
  shows "(coll w (str_of k) = None \<longrightarrow>
            FeatureService_evaluateFeature (plainRepository drv) w () k x =
              (Inl (FeatureNotFoundError (str_of k)), enter (Repo_findByKey (str_of k)) w, ())
            \<and> list_all (\<lambda>ev. \<not> is_engine_call ev)
                (new_events w
                  (fst (snd (FeatureService_evaluateFeature (plainRepository drv) w () k x)))))
       \<and> (coll w (str_of k) = None \<and> \<not> serves cache (str_of k) \<longrightarrow>
            FeatureService_evaluateFeature (cachingRepository drv stringify parse envTtl)
                w cache k x =
              (Inl (FeatureNotFoundError (str_of k)), enter (Repo_findByKey (str_of k)) w, cache)
            \<and> list_all (\<lambda>ev. \<not> is_engine_call ev)
                (new_events w
                  (fst (snd (FeatureService_evaluateFeature
                    (cachingRepository drv stringify parse envTtl) w cache k x)))))
       \<and> (\<forall>doc. coll w (str_of k) = Some doc \<longrightarrow>
            FeatureService_evaluateFeature (plainRepository drv) w () k x =
              (Inr (evaluate (toDomain doc) (context_of x)),
               enter (Engine_evaluate (key doc)) (enter (Repo_findByKey (str_of k)) w), ()))
       \<and> (\<forall>doc. coll w (str_of k) = Some doc \<and> \<not> serves cache (str_of k) \<longrightarrow>
            fst (FeatureService_evaluateFeature (cachingRepository drv stringify parse envTtl)
                w cache k x) =
              Inr (evaluate (toDomain doc) (context_of x)))
       \<and> (\<forall>w' c'. findByKey repository w c (str_of k) = (Inr None, w', c') \<longrightarrow>
            FeatureService_evaluateFeature repository w c k x =
              (Inl (FeatureNotFoundError (str_of k)), w', c'))
       \<and> (\<forall>feature w' c'. findByKey repository w c (str_of k) = (Inr (Some feature), w', c') \<longrightarrow>
            FeatureService_evaluateFeature repository w c k x =
              (Inr (evaluate feature (context_of x)), enter (Engine_evaluate (key feature)) w', c'))"
proof (intro conjI impI allI)
  assume "coll w (str_of k) = None"
  then show "FeatureService_evaluateFeature (plainRepository drv) w () k x =
      (Inl (FeatureNotFoundError (str_of k)), enter (Repo_findByKey (str_of k)) w, ())"
    by (simp add: evaluateFeature_valid [OF assms] plain_findByKey)
  then show "list_all (\<lambda>ev. \<not> is_engine_call ev)
      (new_events w (fst (snd (FeatureService_evaluateFeature (plainRepository drv) w () k x))))"
    by (simp add: new_events_enter)
next
  assume a: "coll w (str_of k) = None \<and> \<not> serves cache (str_of k)"
  then show "FeatureService_evaluateFeature (cachingRepository drv stringify parse envTtl)
      w cache k x =
      (Inl (FeatureNotFoundError (str_of k)), enter (Repo_findByKey (str_of k)) w, cache)"
    using caching_findByKey_not_served [of cache "str_of k" drv stringify parse envTtl w]
    by (simp add: evaluateFeature_valid [OF assms])
  then show "list_all (\<lambda>ev. \<not> is_engine_call ev)
      (new_events w (fst (snd (FeatureService_evaluateFeature
         (cachingRepository drv stringify parse envTtl) w cache k x))))"
    by (simp add: new_events_enter)
next
  fix doc assume "coll w (str_of k) = Some doc"
  then show "FeatureService_evaluateFeature (plainRepository drv) w () k x =
      (Inr (evaluate (toDomain doc) (context_of x)),
       enter (Engine_evaluate (key doc)) (enter (Repo_findByKey (str_of k)) w), ())"
    by (simp add: evaluateFeature_valid [OF assms] plain_findByKey key_toDomain)
next
  fix doc assume "coll w (str_of k) = Some doc \<and> \<not> serves cache (str_of k)"
  then show "fst (FeatureService_evaluateFeature (cachingRepository drv stringify parse envTtl)
      w cache k x) = Inr (evaluate (toDomain doc) (context_of x))"
    using caching_findByKey_not_served [of cache "str_of k" drv stringify parse envTtl w]
    by (auto simp: evaluateFeature_valid [OF assms])
next
  fix w' c' assume "findByKey repository w c (str_of k) = (Inr None, w', c')"
  then show "FeatureService_evaluateFeature repository w c k x =
      (Inl (FeatureNotFoundError (str_of k)), w', c')"
    by (simp add: evaluateFeature_valid [OF assms])
next
  fix feature w' c'
  assume "findByKey repository w c (str_of k) = (Inr (Some feature), w', c')"
  then show "FeatureService_evaluateFeature repository w c k x =
      (Inr (evaluate feature (context_of x)), enter (Engine_evaluate (key feature)) w', c')"
    by (simp add: evaluateFeature_valid [OF assms])
qed

lemma dark_mode_key_valid: "validateFeatureKey (JStr ''dark-mode'') = Inr ()"
  by (simp add: validateFeatureKey_def trim_def is_js_whitespace_def keyPattern_test_def
      keyPattern_class_def)

lemma u1_context_valid: "validateEvaluationContext (JObj [(''userId'', JStr ''u1'')]) = Inr ()"
  by (simp add: validateEvaluationContext_def validate_if_defined_def validateOverrideId_def
      trim_def is_js_whitespace_def)

text \<open>
  The key \<^verbatim>\<open>dark-mode\<close> and the context \<^verbatim>\<open>{ userId: "u1" }\<close>: on the collection
  without the flag, through the repository without a cache and through the one with
  an empty cache; and on the collection with the flag, through an empty cache.
\<close>

theorem evaluateFeature_not_found_witness:
  "FeatureService_evaluateFeature (plainRepository field_driver) stale_world ()
       (JStr ''dark-mode'') (JObj [(''userId'', JStr ''u1'')])
     = (Inl (FeatureNotFoundError ''dark-mode''),
        enter (Repo_findByKey ''dark-mode'') stale_world, ())
   \<and> FeatureService_evaluateFeature
       (cachingRepository field_driver example_stringify example_parse None)
       stale_world empty_cache (JStr ''dark-mode'') (JObj [(''userId'', JStr ''u1'')])
     = (Inl (FeatureNotFoundError ''dark-mode''),
        enter (Repo_findByKey ''dark-mode'') stale_world, empty_cache)
   \<and> fst (FeatureService_evaluateFeature
       (cachingRepository field_driver example_stringify example_parse None)
       fresh_world empty_cache (JStr ''dark-mode'') (JObj [(''userId'', JStr ''u1'')]))
     = Inr \<lparr>EvaluationResult.key = ''dark-mode'', EvaluationResult.enabled = True,
            reason = GlobalDefault\<rparr>"
proof -
  have n: "coll stale_world ''dark-mode'' = None"
    by (simp add: stale_world_def)
  have s: "coll fresh_world ''dark-mode'' = Some dark_mode"
    by (simp add: fresh_world_def)
  have e: "\<not> serves empty_cache ''dark-mode''"
    by (simp add: serves_def RedisCache_get_def client_get_def empty_cache_def truthy_id_def)
  have r: "evaluate (toDomain dark_mode) (context_of (JObj [(''userId'', JStr ''u1'')]))
     = \<lparr>EvaluationResult.key = ''dark-mode'', EvaluationResult.enabled = True,
        reason = GlobalDefault\<rparr>"
    by (simp add: toDomain_def dark_mode_def context_of_def evaluate_def truthy_id_def
        map_has_def id_of_def opt_has_def)
  show ?thesis
    using evaluateFeature_not_found [OF dark_mode_key_valid u1_context_valid,
        where w = stale_world and cache = empty_cache and drv = field_driver
          and stringify = example_stringify and parse = example_parse and envTtl = None
          and repository = "plainRepository field_driver" and c = "()"]
      evaluateFeature_not_found [OF dark_mode_key_valid u1_context_valid,
        where w = fresh_world and cache = empty_cache and drv = field_driver
          and stringify = example_stringify and parse = example_parse and envTtl = None
          and repository = "plainRepository field_driver" and c = "()"]
    by (simp add: n s e r)
qed

text \<open>
  Stated for whatever the service runs on, the property fails on the repository with
  the cache, which is the one the application constructs the service with. A lookup of \<^verbatim>\<open>dark-mode\<close> fills the cache;
  the flag is then deleted while the cache's client fails, so the store loses the
  record and the invalidation is dropped without an error; the client recovers.
  Evaluating \<^verbatim>\<open>dark-mode\<close> now finds no record in the store, and yet it returns a
  result and calls the engine, on the entry the cache still serves.
\<close>

theorem evaluateFeature_not_found_counterexample:
  "CachedFeatureRepository_findByKey example_stringify example_parse None
       fresh_world empty_cache ''dark-mode''
     = (Inr (Some dark_mode), enter (Repo_findByKey ''dark-mode'') fresh_world, filled_cache)
   \<and> CachedFeatureRepository_delete (enter (Repo_findByKey ''dark-mode'') fresh_world)
       failing_cache ''dark-mode''
     = (Inr (), stale_world, failing_cache)
   \<and> coll stale_world ''dark-mode'' = None
   \<and> FeatureService_evaluateFeature
       (cachingRepository field_driver example_stringify example_parse None)
       stale_world filled_cache (JStr ''dark-mode'') (JObj [(''userId'', JStr ''u1'')])
     = (Inr \<lparr>EvaluationResult.key = ''dark-mode'', EvaluationResult.enabled = True,
             reason = GlobalDefault\<rparr>,
        enter (Engine_evaluate ''dark-mode'') (enter (Repo_findByKey ''dark-mode'') stale_world),
        filled_cache)"
proof (intro conjI)
  show "CachedFeatureRepository_findByKey example_stringify example_parse None
       fresh_world empty_cache ''dark-mode''
     = (Inr (Some dark_mode), enter (Repo_findByKey ''dark-mode'') fresh_world, filled_cache)"
    by (simp add: CachedFeatureRepository_findByKey_def Let_def CACHE_KEY_PREFIX_def
        RedisCache_get_def RedisCache_set_def client_get_def client_setEx_def ttl_of_def
        empty_cache_def filled_cache_def fresh_world_def enter_def findOne_def truthy_id_def
        toDomain_def dark_mode_def example_stringify_def)
  show "CachedFeatureRepository_delete (enter (Repo_findByKey ''dark-mode'') fresh_world)
       failing_cache ''dark-mode''
     = (Inr (), stale_world, failing_cache)"
    by (simp add: CachedFeatureRepository_delete_def Let_def deleteOne_def invalidate_def
        CACHE_KEY_PREFIX_def RedisCache_delete_def client_del_def failing_cache_def
        fresh_world_def stale_world_def enter_def)
  show "coll stale_world ''dark-mode'' = None"
    by (simp add: stale_world_def)
  have l: "findByKey (cachingRepository field_driver example_stringify example_parse None)
      stale_world filled_cache ''dark-mode''
     = (Inr (Some dark_mode), enter (Repo_findByKey ''dark-mode'') stale_world, filled_cache)"
    by (simp add: cachingRepository_def CachedFeatureRepository_findByKey_def Let_def
        CACHE_KEY_PREFIX_def RedisCache_get_def client_get_def filled_cache_def truthy_id_def
        id_of_def example_parse_def)
  show "FeatureService_evaluateFeature
       (cachingRepository field_driver example_stringify example_parse None)
       stale_world filled_cache (JStr ''dark-mode'') (JObj [(''userId'', JStr ''u1'')])
     = (Inr \<lparr>EvaluationResult.key = ''dark-mode'', EvaluationResult.enabled = True,
             reason = GlobalDefault\<rparr>,
        enter (Engine_evaluate ''dark-mode'') (enter (Repo_findByKey ''dark-mode'') stale_world),
        filled_cache)"
    by (simp add: evaluateFeature_valid [OF dark_mode_key_valid u1_context_valid] l)
      (simp add: dark_mode_def context_of_def evaluate_def truthy_id_def map_has_def
        id_of_def opt_has_def)
qed



section \<open>The store: removing an override\<close>




















end
